theory Spec2Isabelle
  imports Main
begin

section \<open>Tags and nodes\<close>

text \<open>
  Modelled from the spec: the tag enumerations of \<^verbatim>\<open>type.h\<close> (not part of the sources at
  hand). A C++ \<^verbatim>\<open>enum class\<close> object can hold a value that is none of its enumerators, so
  each enumeration has one more constructor for such values; these are the tags that
  reach the \<^verbatim>\<open>default\<close> branch of a switch. \<^verbatim>\<open>DataType::Int\<close> is written \<open>Int'\<close>, since
  \<open>Int\<close> is taken by the notation for intersection.
\<close>

datatype ValType = IterDomain | TensorDomain | Tensor | TensorView | Scalar
  | OtherValType nat

datatype DataType = Float | Int' | OtherDataType nat

datatype ExprType = Split | Merge | Reorder | UnaryOp | BinaryOp | ForLoop | IfThenElse
  | OtherExprType nat

text \<open>
  Modelled from the spec: the node interface of \<^verbatim>\<open>ir.h\<close> that the dispatcher consumes,
  namely the two category tests and the three tag accessors (read after the
  dereference \<^verbatim>\<open>*(val->getValType())\<close>). The category tests are independent fields: the
  dispatcher does not check that they exclude each other. \<open>contents\<close> stands for all
  the node state that is not a tag.
\<close>

record Statement =
  isVal :: bool
  isExpr :: bool
  getValType :: ValType
  getDataType :: DataType
  getExprType :: ExprType
  contents :: nat

text \<open>
  \<^verbatim>\<open>Statement*\<close>, \<^verbatim>\<open>Val*\<close>, \<^verbatim>\<open>Expr*\<close> and the pointers to the concrete classes are addresses
  into the IR; a \<^verbatim>\<open>static_cast\<close> between them keeps the address.
\<close>

type_synonym addr = nat

section \<open>Program state, errors, handlers\<close>

text \<open>
  The state a dispatch runs in: the IR nodes by address, the handler object the caller
  holds (\<open>receiver\<close>, the object a handler pointer points to and the object a by-value
  argument is copied from), and everything else a handler can touch (\<open>world\<close>: output
  streams, collections it fills).
\<close>

record ('h, 'w) state =
  ir :: "addr \<Rightarrow> Statement"
  receiver :: 'h
  world :: 'w

text \<open>
  \<^verbatim>\<open>TORCH_INTERNAL_ASSERT(false, msg)\<close> throws; a handler overload may throw as well.
  A throw is the left summand of the result, and the state reached so far is kept.
\<close>

datatype error = InternalAssert string | HandlerError string

definition TORCH_INTERNAL_ASSERT ::
  "string \<Rightarrow> 's \<Rightarrow> (error + 'r) \<times> 's" where
  "TORCH_INTERNAL_ASSERT msg s = (Inl (InternalAssert msg), s)"

text \<open>
  The three shapes of overload. A visiting overload (\<^verbatim>\<open>void handle(X*)\<close>) may change
  everything. A read-only one (\<^verbatim>\<open>void handle(const X* const)\<close>) receives the node as a
  pointer to const: that forbids a write through the pointer it is given, not a write
  through a non-const pointer to the same node that the handler already holds, so it is
  a state transformer of the same shape. A mutating one (\<^verbatim>\<open>Statement* mutate(X*)\<close>) also
  returns a node.
\<close>

type_synonym ('h, 'w) handle_fn =
  "addr \<Rightarrow> ('h, 'w) state \<Rightarrow> (error + unit) \<times> ('h, 'w) state"

type_synonym ('h, 'w) const_handle_fn =
  "addr \<Rightarrow> ('h, 'w) state \<Rightarrow> (error + unit) \<times> ('h, 'w) state"

type_synonym ('h, 'w) mutate_fn =
  "addr \<Rightarrow> ('h, 'w) state \<Rightarrow> (error + addr) \<times> ('h, 'w) state"

text \<open>
  The overload sets of a handler class (its method table), one field per overload,
  named after the static parameter type.
\<close>

record ('h, 'w) Dispatch =
  handle_Statement :: "('h, 'w) handle_fn"
  handle_Expr :: "('h, 'w) handle_fn"
  handle_Val :: "('h, 'w) handle_fn"
  handle_IterDomain :: "('h, 'w) handle_fn"
  handle_TensorDomain :: "('h, 'w) handle_fn"
  handle_Tensor :: "('h, 'w) handle_fn"
  handle_TensorView :: "('h, 'w) handle_fn"
  handle_Float :: "('h, 'w) handle_fn"
  handle_Int :: "('h, 'w) handle_fn"
  handle_Split :: "('h, 'w) handle_fn"
  handle_Merge :: "('h, 'w) handle_fn"
  handle_Reorder :: "('h, 'w) handle_fn"
  handle_UnaryOp :: "('h, 'w) handle_fn"
  handle_BinaryOp :: "('h, 'w) handle_fn"
  handle_ForLoop :: "('h, 'w) handle_fn"
  handle_IfThenElse :: "('h, 'w) handle_fn"

record ('h, 'w) ConstDispatch =
  const_handle_Statement :: "('h, 'w) const_handle_fn"
  const_handle_Expr :: "('h, 'w) const_handle_fn"
  const_handle_Val :: "('h, 'w) const_handle_fn"
  const_handle_IterDomain :: "('h, 'w) const_handle_fn"
  const_handle_TensorDomain :: "('h, 'w) const_handle_fn"
  const_handle_Tensor :: "('h, 'w) const_handle_fn"
  const_handle_TensorView :: "('h, 'w) const_handle_fn"
  const_handle_Float :: "('h, 'w) const_handle_fn"
  const_handle_Int :: "('h, 'w) const_handle_fn"
  const_handle_Split :: "('h, 'w) const_handle_fn"
  const_handle_Merge :: "('h, 'w) const_handle_fn"
  const_handle_Reorder :: "('h, 'w) const_handle_fn"
  const_handle_UnaryOp :: "('h, 'w) const_handle_fn"
  const_handle_BinaryOp :: "('h, 'w) const_handle_fn"
  const_handle_ForLoop :: "('h, 'w) const_handle_fn"
  const_handle_IfThenElse :: "('h, 'w) const_handle_fn"

record ('h, 'w) Mutator =
  mutate_Statement :: "('h, 'w) mutate_fn"
  mutate_Expr :: "('h, 'w) mutate_fn"
  mutate_Val :: "('h, 'w) mutate_fn"
  mutate_IterDomain :: "('h, 'w) mutate_fn"
  mutate_TensorDomain :: "('h, 'w) mutate_fn"
  mutate_Tensor :: "('h, 'w) mutate_fn"
  mutate_TensorView :: "('h, 'w) mutate_fn"
  mutate_Float :: "('h, 'w) mutate_fn"
  mutate_Int :: "('h, 'w) mutate_fn"
  mutate_Split :: "('h, 'w) mutate_fn"
  mutate_Merge :: "('h, 'w) mutate_fn"
  mutate_Reorder :: "('h, 'w) mutate_fn"
  mutate_UnaryOp :: "('h, 'w) mutate_fn"
  mutate_BinaryOp :: "('h, 'w) mutate_fn"
  mutate_ForLoop :: "('h, 'w) mutate_fn"
  mutate_IfThenElse :: "('h, 'w) mutate_fn"

section \<open>The handler argument and \<open>ptr\<close>\<close>

text \<open>
  The template parameter \<^verbatim>\<open>T handler\<close> is instantiated with a handler class (the
  argument is a copy of the caller's object) and with a pointer to one (the argument
  points to the caller's object, \<open>receiver\<close>).
\<close>

datatype 'h handler = Instance 'h | Pointer

text \<open>
  \<^verbatim>\<open>ptr(T& obj)\<close> returns the address of the parameter, \<^verbatim>\<open>ptr(T* obj)\<close> the pointer
  itself: \<open>ptr handler s\<close> is the state in which the object \<^verbatim>\<open>ptr(handler)\<close> points to is
  the receiver of the next method call.
\<close>

definition ptr :: "'h handler \<Rightarrow> ('h, 'w) state \<Rightarrow> ('h, 'w) state" where
  "ptr handler s = (case handler of Instance obj \<Rightarrow> s\<lparr>receiver := obj\<rparr> | Pointer \<Rightarrow> s)"

text \<open>
  Leaving a dispatch function (by \<^verbatim>\<open>return\<close> or by a throw) destroys a by-value
  parameter: the caller's object is as it was at entry (\<open>s0\<close>). Through a pointer the
  caller's object is the one the overload worked on.
\<close>

definition leave ::
  "'h handler \<Rightarrow> ('h, 'w) state \<Rightarrow> ('h, 'w) state \<Rightarrow> ('h, 'w) state" where
  "leave handler s0 s' =
     (case handler of Instance obj \<Rightarrow> s'\<lparr>receiver := receiver s0\<rparr> | Pointer \<Rightarrow> s')"

text \<open>
  \<^verbatim>\<open>ptr(handler)->handle(node); return;\<close> and \<^verbatim>\<open>return ptr(mutator)->mutate(node);\<close>:
  the overload \<open>m\<close> runs on the object \<^verbatim>\<open>ptr(handler)\<close> points to, and its result is
  the result of the dispatch function.
\<close>

definition call ::
  "'h handler \<Rightarrow> (addr \<Rightarrow> ('h, 'w) state \<Rightarrow> 'r \<times> ('h, 'w) state) \<Rightarrow> addr \<Rightarrow>
   ('h, 'w) state \<Rightarrow> 'r \<times> ('h, 'w) state" where
  "call handler m node s =
     (case m node (ptr handler s) of (r, s') \<Rightarrow> (r, leave handler s s'))"

text \<open>
  \<^verbatim>\<open>ptr(handler)->handle(static_cast<const X* const>(node)); return;\<close>: the cast to a
  pointer to const keeps the address and selects an overload of the read-only family;
  the call itself is as above.
\<close>

definition const_call ::
  "'h handler \<Rightarrow> ('h, 'w) const_handle_fn \<Rightarrow> addr \<Rightarrow>
   ('h, 'w) state \<Rightarrow> (error + unit) \<times> ('h, 'w) state" where
  "const_call handler m node s =
     (case m node (ptr handler s) of (r, s') \<Rightarrow> (r, leave handler s s'))"

section \<open>The dispatch functions\<close>

text \<open>
  Each function is the template of the same name, with \<open>d\<close> the overloads of the
  instantiated handler class. A \<^verbatim>\<open>switch\<close> is a \<open>case\<close> on the tag read from the node; the
  inner \<^verbatim>\<open>default: break\<close> of the Scalar case falls through the outer \<^verbatim>\<open>default: break\<close> to
  the assertion after the switch.
\<close>

subsection \<open>Visit\<close>

definition Val_dispatch ::
  "'h handler \<Rightarrow> ('h, 'w) Dispatch \<Rightarrow> addr \<Rightarrow> ('h, 'w) state \<Rightarrow>
   (error + unit) \<times> ('h, 'w) state" where
  "Val_dispatch handler d val s =
     (case getValType (ir s val) of
        IterDomain \<Rightarrow> call handler (handle_IterDomain d) val s
      | TensorDomain \<Rightarrow> call handler (handle_TensorDomain d) val s
      | Tensor \<Rightarrow> call handler (handle_Tensor d) val s
      | TensorView \<Rightarrow> call handler (handle_TensorView d) val s
      | Scalar \<Rightarrow>
          (case getDataType (ir s val) of
             Float \<Rightarrow> call handler (handle_Float d) val s
           | Int' \<Rightarrow> call handler (handle_Int d) val s
           | _ \<Rightarrow> TORCH_INTERNAL_ASSERT ''Unknown valtype in dispatch!'' s)
      | _ \<Rightarrow> TORCH_INTERNAL_ASSERT ''Unknown valtype in dispatch!'' s)"

definition Expr_dispatch ::
  "'h handler \<Rightarrow> ('h, 'w) Dispatch \<Rightarrow> addr \<Rightarrow> ('h, 'w) state \<Rightarrow>
   (error + unit) \<times> ('h, 'w) state" where
  "Expr_dispatch handler d expr s =
     (case getExprType (ir s expr) of
        Split \<Rightarrow> call handler (handle_Split d) expr s
      | Merge \<Rightarrow> call handler (handle_Merge d) expr s
      | Reorder \<Rightarrow> call handler (handle_Reorder d) expr s
      | UnaryOp \<Rightarrow> call handler (handle_UnaryOp d) expr s
      | BinaryOp \<Rightarrow> call handler (handle_BinaryOp d) expr s
      | ForLoop \<Rightarrow> call handler (handle_ForLoop d) expr s
      | IfThenElse \<Rightarrow> call handler (handle_IfThenElse d) expr s
      | _ \<Rightarrow> TORCH_INTERNAL_ASSERT ''Unknown exprtype in dispatch!'' s)"

definition Statement_dispatch ::
  "'h handler \<Rightarrow> ('h, 'w) Dispatch \<Rightarrow> addr \<Rightarrow> ('h, 'w) state \<Rightarrow>
   (error + unit) \<times> ('h, 'w) state" where
  "Statement_dispatch handler d stmt s =
     (if isVal (ir s stmt) then call handler (handle_Val d) stmt s
      else if isExpr (ir s stmt) then call handler (handle_Expr d) stmt s
      else TORCH_INTERNAL_ASSERT ''Unknown stmttype in dispatch!'' s)"

subsection \<open>Const-Visit\<close>

definition Val_const_dispatch ::
  "'h handler \<Rightarrow> ('h, 'w) ConstDispatch \<Rightarrow> addr \<Rightarrow> ('h, 'w) state \<Rightarrow>
   (error + unit) \<times> ('h, 'w) state" where
  "Val_const_dispatch handler d val s =
     (case getValType (ir s val) of
        IterDomain \<Rightarrow> const_call handler (const_handle_IterDomain d) val s
      | TensorDomain \<Rightarrow> const_call handler (const_handle_TensorDomain d) val s
      | Tensor \<Rightarrow> const_call handler (const_handle_Tensor d) val s
      | TensorView \<Rightarrow> const_call handler (const_handle_TensorView d) val s
      | Scalar \<Rightarrow>
          (case getDataType (ir s val) of
             Float \<Rightarrow> const_call handler (const_handle_Float d) val s
           | Int' \<Rightarrow> const_call handler (const_handle_Int d) val s
           | _ \<Rightarrow> TORCH_INTERNAL_ASSERT ''Unknown valtype in dispatch!'' s)
      | _ \<Rightarrow> TORCH_INTERNAL_ASSERT ''Unknown valtype in dispatch!'' s)"

definition Expr_const_dispatch ::
  "'h handler \<Rightarrow> ('h, 'w) ConstDispatch \<Rightarrow> addr \<Rightarrow> ('h, 'w) state \<Rightarrow>
   (error + unit) \<times> ('h, 'w) state" where
  "Expr_const_dispatch handler d expr s =
     (case getExprType (ir s expr) of
        Split \<Rightarrow> const_call handler (const_handle_Split d) expr s
      | Merge \<Rightarrow> const_call handler (const_handle_Merge d) expr s
      | Reorder \<Rightarrow> const_call handler (const_handle_Reorder d) expr s
      | UnaryOp \<Rightarrow> const_call handler (const_handle_UnaryOp d) expr s
      | BinaryOp \<Rightarrow> const_call handler (const_handle_BinaryOp d) expr s
      | ForLoop \<Rightarrow> const_call handler (const_handle_ForLoop d) expr s
      | IfThenElse \<Rightarrow> const_call handler (const_handle_IfThenElse d) expr s
      | _ \<Rightarrow> TORCH_INTERNAL_ASSERT ''Unknown exprtype in dispatch!'' s)"

definition Statement_const_dispatch ::
  "'h handler \<Rightarrow> ('h, 'w) ConstDispatch \<Rightarrow> addr \<Rightarrow> ('h, 'w) state \<Rightarrow>
   (error + unit) \<times> ('h, 'w) state" where
  "Statement_const_dispatch handler d stmt s =
     (if isVal (ir s stmt) then const_call handler (const_handle_Val d) stmt s
      else if isExpr (ir s stmt) then const_call handler (const_handle_Expr d) stmt s
      else TORCH_INTERNAL_ASSERT ''Unknown stmttype in dispatch!'' s)"

subsection \<open>Mutate\<close>

text \<open>
  In \<^verbatim>\<open>Expr::mutator_dispatch\<close> the case \<^verbatim>\<open>ExprType::IfThenElse\<close> casts the node to
  \<^verbatim>\<open>ForLoop*\<close>, so overload resolution picks \<^verbatim>\<open>mutate(ForLoop*)\<close> there; the model follows
  the source.
\<close>

definition Val_mutator_dispatch ::
  "'h handler \<Rightarrow> ('h, 'w) Mutator \<Rightarrow> addr \<Rightarrow> ('h, 'w) state \<Rightarrow>
   (error + addr) \<times> ('h, 'w) state" where
  "Val_mutator_dispatch mutator d val s =
     (case getValType (ir s val) of
        IterDomain \<Rightarrow> call mutator (mutate_IterDomain d) val s
      | TensorDomain \<Rightarrow> call mutator (mutate_TensorDomain d) val s
      | Tensor \<Rightarrow> call mutator (mutate_Tensor d) val s
      | TensorView \<Rightarrow> call mutator (mutate_TensorView d) val s
      | Scalar \<Rightarrow>
          (case getDataType (ir s val) of
             Float \<Rightarrow> call mutator (mutate_Float d) val s
           | Int' \<Rightarrow> call mutator (mutate_Int d) val s
           | _ \<Rightarrow> TORCH_INTERNAL_ASSERT ''Unknown valtype in dispatch!'' s)
      | _ \<Rightarrow> TORCH_INTERNAL_ASSERT ''Unknown valtype in dispatch!'' s)"

definition Expr_mutator_dispatch ::
  "'h handler \<Rightarrow> ('h, 'w) Mutator \<Rightarrow> addr \<Rightarrow> ('h, 'w) state \<Rightarrow>
   (error + addr) \<times> ('h, 'w) state" where
  "Expr_mutator_dispatch mutator d expr s =
     (case getExprType (ir s expr) of
        Split \<Rightarrow> call mutator (mutate_Split d) expr s
      | Merge \<Rightarrow> call mutator (mutate_Merge d) expr s
      | Reorder \<Rightarrow> call mutator (mutate_Reorder d) expr s
      | UnaryOp \<Rightarrow> call mutator (mutate_UnaryOp d) expr s
      | BinaryOp \<Rightarrow> call mutator (mutate_BinaryOp d) expr s
      | ForLoop \<Rightarrow> call mutator (mutate_ForLoop d) expr s
      | IfThenElse \<Rightarrow> call mutator (mutate_ForLoop d) expr s
      | _ \<Rightarrow> TORCH_INTERNAL_ASSERT ''Unknown exprtype in dispatch!'' s)"

definition Statement_mutator_dispatch ::
  "'h handler \<Rightarrow> ('h, 'w) Mutator \<Rightarrow> addr \<Rightarrow> ('h, 'w) state \<Rightarrow>
   (error + addr) \<times> ('h, 'w) state" where
  "Statement_mutator_dispatch mutator d stmt s =
     (if isVal (ir s stmt) then call mutator (mutate_Val d) stmt s
      else if isExpr (ir s stmt) then call mutator (mutate_Expr d) stmt s
      else TORCH_INTERNAL_ASSERT ''Unknown stmttype in dispatch!'' s)"

section \<open>The base handler classes\<close>

text \<open>
  The category-level overloads that the source defines for its base classes. Each passes
  \<^verbatim>\<open>this\<close>, a pointer, so the overloads reached are those of the object's own class \<open>d\<close>.
\<close>

definition OptOutDispatch_handle_Statement ::
  "('h, 'w) Dispatch \<Rightarrow> ('h, 'w) handle_fn" where
  "OptOutDispatch_handle_Statement d s st = Statement_dispatch Pointer d s st"

definition OptOutDispatch_handle_Expr :: "('h, 'w) Dispatch \<Rightarrow> ('h, 'w) handle_fn" where
  "OptOutDispatch_handle_Expr d e st = Expr_dispatch Pointer d e st"

definition OptOutDispatch_handle_Val :: "('h, 'w) Dispatch \<Rightarrow> ('h, 'w) handle_fn" where
  "OptOutDispatch_handle_Val d v st = Val_dispatch Pointer d v st"

definition OptInDispatch_handle_Statement ::
  "('h, 'w) Dispatch \<Rightarrow> ('h, 'w) handle_fn" where
  "OptInDispatch_handle_Statement d s st = Statement_dispatch Pointer d s st"

definition OptInDispatch_handle_Expr :: "('h, 'w) Dispatch \<Rightarrow> ('h, 'w) handle_fn" where
  "OptInDispatch_handle_Expr d e st = Expr_dispatch Pointer d e st"

definition OptInDispatch_handle_Val :: "('h, 'w) Dispatch \<Rightarrow> ('h, 'w) handle_fn" where
  "OptInDispatch_handle_Val d v st = Val_dispatch Pointer d v st"

definition OptInConstDispatch_handle_Statement ::
  "('h, 'w) ConstDispatch \<Rightarrow> ('h, 'w) const_handle_fn" where
  "OptInConstDispatch_handle_Statement d s st = Statement_const_dispatch Pointer d s st"

definition OptInConstDispatch_handle_Expr ::
  "('h, 'w) ConstDispatch \<Rightarrow> ('h, 'w) const_handle_fn" where
  "OptInConstDispatch_handle_Expr d e st = Expr_const_dispatch Pointer d e st"

definition OptInConstDispatch_handle_Val ::
  "('h, 'w) ConstDispatch \<Rightarrow> ('h, 'w) const_handle_fn" where
  "OptInConstDispatch_handle_Val d v st = Val_const_dispatch Pointer d v st"

definition OptOutMutator_mutate_Statement ::
  "('h, 'w) Mutator \<Rightarrow> ('h, 'w) mutate_fn" where
  "OptOutMutator_mutate_Statement d s st = Statement_mutator_dispatch Pointer d s st"

definition OptOutMutator_mutate_Expr :: "('h, 'w) Mutator \<Rightarrow> ('h, 'w) mutate_fn" where
  "OptOutMutator_mutate_Expr d e st = Expr_mutator_dispatch Pointer d e st"

definition OptOutMutator_mutate_Val :: "('h, 'w) Mutator \<Rightarrow> ('h, 'w) mutate_fn" where
  "OptOutMutator_mutate_Val d v st = Val_mutator_dispatch Pointer d v st"

text \<open>
  A handler class derived from a base class supplies the overloads for the concrete
  kinds and inherits the three category-level ones: \<open>OptOutDispatch d\<close> is the class
  with the concrete-kind overloads of \<open>d\<close> and the category-level overloads above.
\<close>

definition OptOutDispatch :: "('h, 'w) Dispatch \<Rightarrow> ('h, 'w) Dispatch" where
  "OptOutDispatch d =
     (let b = d\<lparr>handle_Expr := OptOutDispatch_handle_Expr d, handle_Val :=
        OptOutDispatch_handle_Val d\<rparr>
      in b\<lparr>handle_Statement := OptOutDispatch_handle_Statement b\<rparr>)"

definition OptInDispatch :: "('h, 'w) Dispatch \<Rightarrow> ('h, 'w) Dispatch" where
  "OptInDispatch d =
     (let b = d\<lparr>handle_Expr := OptInDispatch_handle_Expr d, handle_Val :=
        OptInDispatch_handle_Val d\<rparr>
      in b\<lparr>handle_Statement := OptInDispatch_handle_Statement b\<rparr>)"

definition OptInConstDispatch :: "('h, 'w) ConstDispatch \<Rightarrow> ('h, 'w) ConstDispatch" where
  "OptInConstDispatch d =
     (let b = d\<lparr>const_handle_Expr := OptInConstDispatch_handle_Expr d, const_handle_Val
        := OptInConstDispatch_handle_Val d\<rparr>
      in b\<lparr>const_handle_Statement := OptInConstDispatch_handle_Statement b\<rparr>)"

definition OptOutMutator :: "('h, 'w) Mutator \<Rightarrow> ('h, 'w) Mutator" where
  "OptOutMutator d =
     (let b = d\<lparr>mutate_Expr := OptOutMutator_mutate_Expr d, mutate_Val :=
        OptOutMutator_mutate_Val d\<rparr>
      in b\<lparr>mutate_Statement := OptOutMutator_mutate_Statement b\<rparr>)"

section \<open>Recording handlers\<close>

text \<open>
  Handlers that make every invocation visible: each overload appends its own static
  parameter type and the node it received to a log held in the world, and counts the
  call in the handler object. They are the handlers used to run the dispatcher on
  concrete inputs.
\<close>

datatype overload =
    on_Statement | on_Expr | on_Val
  | on_IterDomain | on_TensorDomain | on_Tensor | on_TensorView | on_Float | on_Int
  | on_Split | on_Merge | on_Reorder | on_UnaryOp | on_BinaryOp | on_ForLoop | on_IfThenElse

type_synonym log = "(overload \<times> addr) list"

definition record_handle :: "overload \<Rightarrow> (nat, log) handle_fn" where
  "record_handle c node s =
     (Inr (), s\<lparr>receiver := Suc (receiver s), world := world s @ [(c, node)]\<rparr>)"

definition record_const_handle :: "overload \<Rightarrow> (nat, log) const_handle_fn" where
  "record_const_handle c node s =
     (Inr (), s\<lparr>receiver := Suc (receiver s), world := world s @ [(c, node)]\<rparr>)"

text \<open>The recording mutator returns the node \<open>f c node\<close> from its overload \<open>c\<close>.\<close>

definition record_mutate ::
  "(overload \<Rightarrow> addr \<Rightarrow> addr) \<Rightarrow> overload \<Rightarrow> (nat, log) mutate_fn" where
  "record_mutate f c node s =
     (Inr (f c node), s\<lparr>receiver := Suc (receiver s), world := world s @ [(c, node)]\<rparr>)"

definition recorder :: "(nat, log) Dispatch" where
  "recorder = \<lparr>
     handle_Statement = record_handle on_Statement,
     handle_Expr = record_handle on_Expr,
     handle_Val = record_handle on_Val,
     handle_IterDomain = record_handle on_IterDomain,
     handle_TensorDomain = record_handle on_TensorDomain,
     handle_Tensor = record_handle on_Tensor,
     handle_TensorView = record_handle on_TensorView,
     handle_Float = record_handle on_Float,
     handle_Int = record_handle on_Int,
     handle_Split = record_handle on_Split,
     handle_Merge = record_handle on_Merge,
     handle_Reorder = record_handle on_Reorder,
     handle_UnaryOp = record_handle on_UnaryOp,
     handle_BinaryOp = record_handle on_BinaryOp,
     handle_ForLoop = record_handle on_ForLoop,
     handle_IfThenElse = record_handle on_IfThenElse\<rparr>"

definition const_recorder :: "(nat, log) ConstDispatch" where
  "const_recorder = \<lparr>
     const_handle_Statement = record_const_handle on_Statement,
     const_handle_Expr = record_const_handle on_Expr,
     const_handle_Val = record_const_handle on_Val,
     const_handle_IterDomain = record_const_handle on_IterDomain,
     const_handle_TensorDomain = record_const_handle on_TensorDomain,
     const_handle_Tensor = record_const_handle on_Tensor,
     const_handle_TensorView = record_const_handle on_TensorView,
     const_handle_Float = record_const_handle on_Float,
     const_handle_Int = record_const_handle on_Int,
     const_handle_Split = record_const_handle on_Split,
     const_handle_Merge = record_const_handle on_Merge,
     const_handle_Reorder = record_const_handle on_Reorder,
     const_handle_UnaryOp = record_const_handle on_UnaryOp,
     const_handle_BinaryOp = record_const_handle on_BinaryOp,
     const_handle_ForLoop = record_const_handle on_ForLoop,
     const_handle_IfThenElse = record_const_handle on_IfThenElse\<rparr>"

definition mutate_recorder ::
  "(overload \<Rightarrow> addr \<Rightarrow> addr) \<Rightarrow> (nat, log) Mutator" where
  "mutate_recorder f = \<lparr>
     mutate_Statement = record_mutate f on_Statement,
     mutate_Expr = record_mutate f on_Expr,
     mutate_Val = record_mutate f on_Val,
     mutate_IterDomain = record_mutate f on_IterDomain,
     mutate_TensorDomain = record_mutate f on_TensorDomain,
     mutate_Tensor = record_mutate f on_Tensor,
     mutate_TensorView = record_mutate f on_TensorView,
     mutate_Float = record_mutate f on_Float,
     mutate_Int = record_mutate f on_Int,
     mutate_Split = record_mutate f on_Split,
     mutate_Merge = record_mutate f on_Merge,
     mutate_Reorder = record_mutate f on_Reorder,
     mutate_UnaryOp = record_mutate f on_UnaryOp,
     mutate_BinaryOp = record_mutate f on_BinaryOp,
     mutate_ForLoop = record_mutate f on_ForLoop,
     mutate_IfThenElse = record_mutate f on_IfThenElse\<rparr>"

text \<open>Concrete nodes and a start state for running the dispatcher.\<close>

definition Val_node :: "ValType \<Rightarrow> DataType \<Rightarrow> Statement" where
  "Val_node vt dt = \<lparr>isVal = True, isExpr = False, getValType = vt, getDataType = dt,
     getExprType = OtherExprType 0, contents = 0\<rparr>"

definition Expr_node :: "ExprType \<Rightarrow> Statement" where
  "Expr_node et = \<lparr>isVal = False, isExpr = True, getValType = OtherValType 0,
     getDataType = OtherDataType 0, getExprType = et, contents = 0\<rparr>"

definition start :: "(addr \<Rightarrow> Statement) \<Rightarrow> (nat, log) state" where
  "start nodes = \<lparr>ir = nodes, receiver = 0, world = []\<rparr>"

text \<open>An IR whose node at address \<open>a\<close> is \<open>x\<close> with contents \<open>a\<close>.\<close>

definition two_nodes :: "Statement \<Rightarrow> addr \<Rightarrow> Statement" where
  "two_nodes x a = x\<lparr>contents := a\<rparr>"

text \<open>
  A mutator that answers a ForLoop with node 7 and an IfThenElse with node 9, and
  returns every other node as it is.
\<close>

definition replacement :: "overload \<Rightarrow> addr \<Rightarrow> addr" where
  "replacement c node = (if c = on_ForLoop then 7 else if c = on_IfThenElse then 9 else node)"

text \<open>
  A handler of the read-only family that holds a non-const pointer to the nodes it
  visits: its overload for Float writes the contents of the node through that pointer.
  Its other overloads are those of the recording handler.
\<close>

definition write_contents :: "nat \<Rightarrow> ('h, 'w) const_handle_fn" where
  "write_contents v node s = (Inr (), s\<lparr>ir := (ir s)(node := (ir s node)\<lparr>contents := v\<rparr>)\<rparr>)"

definition const_writer :: "(nat, log) ConstDispatch" where
  "const_writer = const_recorder\<lparr>const_handle_Float := write_contents 1\<rparr>"

text \<open>An overload that leaves every node as it found it.\<close>

definition writes_no_node ::
  "(addr \<Rightarrow> ('h, 'w) state \<Rightarrow> 'r \<times> ('h, 'w) state) \<Rightarrow> bool" where
  "writes_no_node h = (\<forall>node s. ir (snd (h node s)) = ir s)"

text \<open>The tags for which the switches of the source have a case.\<close>

definition Val_switch_has_case :: "Statement \<Rightarrow> bool" where
  "Val_switch_has_case x =
     (getValType x \<in> {IterDomain, TensorDomain, Tensor, TensorView} \<or>
      getValType x = Scalar \<and> getDataType x \<in> {Float, Int'})"

definition Expr_switch_has_case :: "Statement \<Rightarrow> bool" where
  "Expr_switch_has_case x =
     (getExprType x \<in> {Split, Merge, Reorder, UnaryOp, BinaryOp, ForLoop, IfThenElse})"

section \<open>Basic facts\<close>

lemma ir_ptr: "ir (ptr handler s) = ir s"
  by (cases handler) (simp_all add: ptr_def)

lemma leave_ptr: "leave handler s (ptr handler s) = s"
  by (cases handler) (simp_all add: leave_def ptr_def)

lemma ptr_Pointer: "ptr Pointer s = s"
  by (simp add: ptr_def)

lemma leave_Pointer: "leave Pointer s s' = s'"
  by (simp add: leave_def)

lemma call_Pointer: "call Pointer m node s = m node s"
  by (simp add: call_def ptr_def leave_def)

lemma call_Instance:
  "call (Instance obj) m node s =
     (case m node (s\<lparr>receiver := obj\<rparr>) of (r, s') \<Rightarrow> (r, s'\<lparr>receiver := receiver s\<rparr>))"
  by (simp add: call_def ptr_def leave_def)

lemma const_call_Pointer: "const_call Pointer m node s = m node s"
  by (simp add: const_call_def ptr_def leave_def)

text \<open>
  The switches read only the overloads for the concrete kinds, so a class and the class
  derived from a base class with its overloads dispatch alike below the Statement level.
\<close>

lemma OptOutDispatch_concrete:
  "handle_IterDomain (OptOutDispatch d) = handle_IterDomain d"
  "handle_TensorDomain (OptOutDispatch d) = handle_TensorDomain d"
  "handle_Tensor (OptOutDispatch d) = handle_Tensor d"
  "handle_TensorView (OptOutDispatch d) = handle_TensorView d"
  "handle_Float (OptOutDispatch d) = handle_Float d"
  "handle_Int (OptOutDispatch d) = handle_Int d"
  "handle_Split (OptOutDispatch d) = handle_Split d"
  "handle_Merge (OptOutDispatch d) = handle_Merge d"
  "handle_Reorder (OptOutDispatch d) = handle_Reorder d"
  "handle_UnaryOp (OptOutDispatch d) = handle_UnaryOp d"
  "handle_BinaryOp (OptOutDispatch d) = handle_BinaryOp d"
  "handle_ForLoop (OptOutDispatch d) = handle_ForLoop d"
  "handle_IfThenElse (OptOutDispatch d) = handle_IfThenElse d"
  by (simp_all add: OptOutDispatch_def Let_def)

lemma OptOutDispatch_category:
  "handle_Statement (OptOutDispatch d) = OptOutDispatch_handle_Statement (OptOutDispatch d)"
  "handle_Expr (OptOutDispatch d) = OptOutDispatch_handle_Expr (OptOutDispatch d)"
  "handle_Val (OptOutDispatch d) = OptOutDispatch_handle_Val (OptOutDispatch d)"
  unfolding fun_eq_iff OptOutDispatch_handle_Statement_def OptOutDispatch_handle_Expr_def
    OptOutDispatch_handle_Val_def
    Statement_dispatch_def Expr_dispatch_def Val_dispatch_def OptOutDispatch_concrete
  by (simp_all add: OptOutDispatch_def Let_def OptOutDispatch_handle_Statement_def
    OptOutDispatch_handle_Expr_def
      OptOutDispatch_handle_Val_def Statement_dispatch_def Expr_dispatch_def Val_dispatch_def)

lemma Val_dispatch_OptOutDispatch:
  "Val_dispatch handler (OptOutDispatch d) = Val_dispatch handler d"
  unfolding fun_eq_iff Val_dispatch_def OptOutDispatch_concrete by simp

lemma Expr_dispatch_OptOutDispatch:
  "Expr_dispatch handler (OptOutDispatch d) = Expr_dispatch handler d"
  unfolding fun_eq_iff Expr_dispatch_def OptOutDispatch_concrete by simp

lemma OptInDispatch_concrete:
  "handle_IterDomain (OptInDispatch d) = handle_IterDomain d"
  "handle_TensorDomain (OptInDispatch d) = handle_TensorDomain d"
  "handle_Tensor (OptInDispatch d) = handle_Tensor d"
  "handle_TensorView (OptInDispatch d) = handle_TensorView d"
  "handle_Float (OptInDispatch d) = handle_Float d"
  "handle_Int (OptInDispatch d) = handle_Int d"
  "handle_Split (OptInDispatch d) = handle_Split d"
  "handle_Merge (OptInDispatch d) = handle_Merge d"
  "handle_Reorder (OptInDispatch d) = handle_Reorder d"
  "handle_UnaryOp (OptInDispatch d) = handle_UnaryOp d"
  "handle_BinaryOp (OptInDispatch d) = handle_BinaryOp d"
  "handle_ForLoop (OptInDispatch d) = handle_ForLoop d"
  "handle_IfThenElse (OptInDispatch d) = handle_IfThenElse d"
  by (simp_all add: OptInDispatch_def Let_def)

lemma OptInDispatch_category:
  "handle_Statement (OptInDispatch d) = OptInDispatch_handle_Statement (OptInDispatch d)"
  "handle_Expr (OptInDispatch d) = OptInDispatch_handle_Expr (OptInDispatch d)"
  "handle_Val (OptInDispatch d) = OptInDispatch_handle_Val (OptInDispatch d)"
  unfolding fun_eq_iff OptInDispatch_handle_Statement_def OptInDispatch_handle_Expr_def
    OptInDispatch_handle_Val_def
    Statement_dispatch_def Expr_dispatch_def Val_dispatch_def OptInDispatch_concrete
  by (simp_all add: OptInDispatch_def Let_def OptInDispatch_handle_Statement_def
    OptInDispatch_handle_Expr_def
      OptInDispatch_handle_Val_def Statement_dispatch_def Expr_dispatch_def Val_dispatch_def)

lemma Val_dispatch_OptInDispatch: "Val_dispatch handler (OptInDispatch d) = Val_dispatch handler d"
  unfolding fun_eq_iff Val_dispatch_def OptInDispatch_concrete by simp

lemma Expr_dispatch_OptInDispatch:
  "Expr_dispatch handler (OptInDispatch d) = Expr_dispatch handler d"
  unfolding fun_eq_iff Expr_dispatch_def OptInDispatch_concrete by simp

lemma OptInConstDispatch_concrete:
  "const_handle_IterDomain (OptInConstDispatch d) = const_handle_IterDomain d"
  "const_handle_TensorDomain (OptInConstDispatch d) = const_handle_TensorDomain d"
  "const_handle_Tensor (OptInConstDispatch d) = const_handle_Tensor d"
  "const_handle_TensorView (OptInConstDispatch d) = const_handle_TensorView d"
  "const_handle_Float (OptInConstDispatch d) = const_handle_Float d"
  "const_handle_Int (OptInConstDispatch d) = const_handle_Int d"
  "const_handle_Split (OptInConstDispatch d) = const_handle_Split d"
  "const_handle_Merge (OptInConstDispatch d) = const_handle_Merge d"
  "const_handle_Reorder (OptInConstDispatch d) = const_handle_Reorder d"
  "const_handle_UnaryOp (OptInConstDispatch d) = const_handle_UnaryOp d"
  "const_handle_BinaryOp (OptInConstDispatch d) = const_handle_BinaryOp d"
  "const_handle_ForLoop (OptInConstDispatch d) = const_handle_ForLoop d"
  "const_handle_IfThenElse (OptInConstDispatch d) = const_handle_IfThenElse d"
  by (simp_all add: OptInConstDispatch_def Let_def)

lemma OptInConstDispatch_category:
  "const_handle_Statement (OptInConstDispatch d) = OptInConstDispatch_handle_Statement (OptInConstDispatch d)"
  "const_handle_Expr (OptInConstDispatch d) = OptInConstDispatch_handle_Expr (OptInConstDispatch d)"
  "const_handle_Val (OptInConstDispatch d) = OptInConstDispatch_handle_Val (OptInConstDispatch d)"
  unfolding fun_eq_iff OptInConstDispatch_handle_Statement_def
    OptInConstDispatch_handle_Expr_def OptInConstDispatch_handle_Val_def
    Statement_const_dispatch_def Expr_const_dispatch_def Val_const_dispatch_def OptInConstDispatch_concrete
  by (simp_all add: OptInConstDispatch_def Let_def OptInConstDispatch_handle_Statement_def
    OptInConstDispatch_handle_Expr_def
      OptInConstDispatch_handle_Val_def Statement_const_dispatch_def Expr_const_dispatch_def Val_const_dispatch_def)

lemma Val_const_dispatch_OptInConstDispatch:
  "Val_const_dispatch handler (OptInConstDispatch d) = Val_const_dispatch handler d"
  unfolding fun_eq_iff Val_const_dispatch_def OptInConstDispatch_concrete by simp

lemma Expr_const_dispatch_OptInConstDispatch:
  "Expr_const_dispatch handler (OptInConstDispatch d) = Expr_const_dispatch handler d"
  unfolding fun_eq_iff Expr_const_dispatch_def OptInConstDispatch_concrete by simp

lemma OptOutMutator_concrete:
  "mutate_IterDomain (OptOutMutator d) = mutate_IterDomain d"
  "mutate_TensorDomain (OptOutMutator d) = mutate_TensorDomain d"
  "mutate_Tensor (OptOutMutator d) = mutate_Tensor d"
  "mutate_TensorView (OptOutMutator d) = mutate_TensorView d"
  "mutate_Float (OptOutMutator d) = mutate_Float d"
  "mutate_Int (OptOutMutator d) = mutate_Int d"
  "mutate_Split (OptOutMutator d) = mutate_Split d"
  "mutate_Merge (OptOutMutator d) = mutate_Merge d"
  "mutate_Reorder (OptOutMutator d) = mutate_Reorder d"
  "mutate_UnaryOp (OptOutMutator d) = mutate_UnaryOp d"
  "mutate_BinaryOp (OptOutMutator d) = mutate_BinaryOp d"
  "mutate_ForLoop (OptOutMutator d) = mutate_ForLoop d"
  "mutate_IfThenElse (OptOutMutator d) = mutate_IfThenElse d"
  by (simp_all add: OptOutMutator_def Let_def)

lemma OptOutMutator_category:
  "mutate_Statement (OptOutMutator d) = OptOutMutator_mutate_Statement (OptOutMutator d)"
  "mutate_Expr (OptOutMutator d) = OptOutMutator_mutate_Expr (OptOutMutator d)"
  "mutate_Val (OptOutMutator d) = OptOutMutator_mutate_Val (OptOutMutator d)"
  unfolding fun_eq_iff OptOutMutator_mutate_Statement_def OptOutMutator_mutate_Expr_def
    OptOutMutator_mutate_Val_def
    Statement_mutator_dispatch_def Expr_mutator_dispatch_def Val_mutator_dispatch_def OptOutMutator_concrete
  by (simp_all add: OptOutMutator_def Let_def OptOutMutator_mutate_Statement_def
    OptOutMutator_mutate_Expr_def
      OptOutMutator_mutate_Val_def Statement_mutator_dispatch_def Expr_mutator_dispatch_def Val_mutator_dispatch_def)

lemma Val_mutator_dispatch_OptOutMutator:
  "Val_mutator_dispatch handler (OptOutMutator d) = Val_mutator_dispatch handler d"
  unfolding fun_eq_iff Val_mutator_dispatch_def OptOutMutator_concrete by simp

lemma Expr_mutator_dispatch_OptOutMutator:
  "Expr_mutator_dispatch handler (OptOutMutator d) = Expr_mutator_dispatch handler d"
  unfolding fun_eq_iff Expr_mutator_dispatch_def OptOutMutator_concrete by simp

text \<open>
  Calling a Val-level or Expr-level dispatch function through a pointer to the object
  that \<open>ptr handler\<close> points to, and leaving, is dispatching with \<open>handler\<close>.
\<close>

lemma call_Val_dispatch: "call handler (Val_dispatch Pointer d) n s = Val_dispatch handler d n s"
  by (cases "getValType (ir s n)"; cases "getDataType (ir s n)")
    (simp_all add: Val_dispatch_def call_def ir_ptr leave_ptr ptr_Pointer leave_Pointer
      TORCH_INTERNAL_ASSERT_def case_prod_unfold)

lemma call_Val_mutator_dispatch:
  "call handler (Val_mutator_dispatch Pointer d) n s = Val_mutator_dispatch handler d n s"
  by (cases "getValType (ir s n)"; cases "getDataType (ir s n)")
    (simp_all add: Val_mutator_dispatch_def call_def ir_ptr leave_ptr ptr_Pointer leave_Pointer
      TORCH_INTERNAL_ASSERT_def case_prod_unfold)

lemma const_call_Val_const_dispatch:
  "const_call handler (Val_const_dispatch Pointer d) n s = Val_const_dispatch handler d n s"
  by (cases "getValType (ir s n)"; cases "getDataType (ir s n)")
    (simp_all add: Val_const_dispatch_def const_call_def ir_ptr leave_ptr ptr_Pointer
      leave_Pointer TORCH_INTERNAL_ASSERT_def case_prod_unfold)

lemma call_Expr_dispatch: "call handler (Expr_dispatch Pointer d) n s = Expr_dispatch handler d n s"
  by (cases "getExprType (ir s n)")
    (simp_all add: Expr_dispatch_def call_def ir_ptr leave_ptr ptr_Pointer leave_Pointer
      TORCH_INTERNAL_ASSERT_def case_prod_unfold)

lemma call_Expr_mutator_dispatch:
  "call handler (Expr_mutator_dispatch Pointer d) n s = Expr_mutator_dispatch handler d n s"
  by (cases "getExprType (ir s n)")
    (simp_all add: Expr_mutator_dispatch_def call_def ir_ptr leave_ptr ptr_Pointer leave_Pointer
      TORCH_INTERNAL_ASSERT_def case_prod_unfold)

lemma const_call_Expr_const_dispatch:
  "const_call handler (Expr_const_dispatch Pointer d) n s = Expr_const_dispatch handler d n s"
  by (cases "getExprType (ir s n)")
    (simp_all add: Expr_const_dispatch_def const_call_def ir_ptr leave_ptr ptr_Pointer
      leave_Pointer TORCH_INTERNAL_ASSERT_def case_prod_unfold)

text \<open>
  At the Statement level, the category-level overload of a base class is the Val-level
  or Expr-level dispatch function, run through \<^verbatim>\<open>this\<close>.
\<close>

lemma base_class_Val:
  "call handler (handle_Val (OptOutDispatch d)) n s = Val_dispatch handler d n s"
  "call handler (handle_Val (OptInDispatch d)) n s = Val_dispatch handler d n s"
  "const_call handler (const_handle_Val (OptInConstDispatch c)) n s = Val_const_dispatch handler c n s"
  "call handler (mutate_Val (OptOutMutator m)) n s = Val_mutator_dispatch handler m n s"
proof -
  have "handle_Val (OptOutDispatch d) = Val_dispatch Pointer d"
    by (simp add: fun_eq_iff OptOutDispatch_category OptOutDispatch_handle_Val_def
        Val_dispatch_OptOutDispatch)
  then show "call handler (handle_Val (OptOutDispatch d)) n s = Val_dispatch handler d n s"
    by (simp add: call_Val_dispatch)
  have "handle_Val (OptInDispatch d) = Val_dispatch Pointer d"
    by (simp add: fun_eq_iff OptInDispatch_category OptInDispatch_handle_Val_def
        Val_dispatch_OptInDispatch)
  then show "call handler (handle_Val (OptInDispatch d)) n s = Val_dispatch handler d n s"
    by (simp add: call_Val_dispatch)
  have "const_handle_Val (OptInConstDispatch c) = Val_const_dispatch Pointer c"
    by (simp add: fun_eq_iff OptInConstDispatch_category OptInConstDispatch_handle_Val_def
        Val_const_dispatch_OptInConstDispatch)
  then show "const_call handler (const_handle_Val (OptInConstDispatch c)) n s =
      Val_const_dispatch handler c n s"
    by (simp add: const_call_Val_const_dispatch)
  have "mutate_Val (OptOutMutator m) = Val_mutator_dispatch Pointer m"
    by (simp add: fun_eq_iff OptOutMutator_category OptOutMutator_mutate_Val_def
        Val_mutator_dispatch_OptOutMutator)
  then show "call handler (mutate_Val (OptOutMutator m)) n s = Val_mutator_dispatch handler m n s"
    by (simp add: call_Val_mutator_dispatch)
qed

lemma base_class_Expr:
  "call handler (handle_Expr (OptOutDispatch d)) n s = Expr_dispatch handler d n s"
  "call handler (handle_Expr (OptInDispatch d)) n s = Expr_dispatch handler d n s"
  "const_call handler (const_handle_Expr (OptInConstDispatch c)) n s = Expr_const_dispatch handler c n s"
  "call handler (mutate_Expr (OptOutMutator m)) n s = Expr_mutator_dispatch handler m n s"
proof -
  have "handle_Expr (OptOutDispatch d) = Expr_dispatch Pointer d"
    by (simp add: fun_eq_iff OptOutDispatch_category OptOutDispatch_handle_Expr_def
        Expr_dispatch_OptOutDispatch)
  then show "call handler (handle_Expr (OptOutDispatch d)) n s = Expr_dispatch handler d n s"
    by (simp add: call_Expr_dispatch)
  have "handle_Expr (OptInDispatch d) = Expr_dispatch Pointer d"
    by (simp add: fun_eq_iff OptInDispatch_category OptInDispatch_handle_Expr_def
        Expr_dispatch_OptInDispatch)
  then show "call handler (handle_Expr (OptInDispatch d)) n s = Expr_dispatch handler d n s"
    by (simp add: call_Expr_dispatch)
  have "const_handle_Expr (OptInConstDispatch c) = Expr_const_dispatch Pointer c"
    by (simp add: fun_eq_iff OptInConstDispatch_category OptInConstDispatch_handle_Expr_def
        Expr_const_dispatch_OptInConstDispatch)
  then show "const_call handler (const_handle_Expr (OptInConstDispatch c)) n s =
      Expr_const_dispatch handler c n s"
    by (simp add: const_call_Expr_const_dispatch)
  have "mutate_Expr (OptOutMutator m) = Expr_mutator_dispatch Pointer m"
    by (simp add: fun_eq_iff OptOutMutator_category OptOutMutator_mutate_Expr_def
        Expr_mutator_dispatch_OptOutMutator)
  then show "call handler (mutate_Expr (OptOutMutator m)) n s = Expr_mutator_dispatch handler m n s"
    by (simp add: call_Expr_mutator_dispatch)
qed

text \<open>The Statement-level dispatch of a class derived from a base class, in one equation.\<close>

lemma Statement_dispatch_OptOutDispatch:
  "Statement_dispatch handler (OptOutDispatch d) n s =
     (if isVal (ir s n) then Val_dispatch handler d n s
      else if isExpr (ir s n) then Expr_dispatch handler d n s
      else TORCH_INTERNAL_ASSERT ''Unknown stmttype in dispatch!'' s)"
  by (simp add: Statement_dispatch_def base_class_Val base_class_Expr)

lemma Statement_dispatch_OptInDispatch:
  "Statement_dispatch handler (OptInDispatch d) n s =
     (if isVal (ir s n) then Val_dispatch handler d n s
      else if isExpr (ir s n) then Expr_dispatch handler d n s
      else TORCH_INTERNAL_ASSERT ''Unknown stmttype in dispatch!'' s)"
  by (simp add: Statement_dispatch_def base_class_Val base_class_Expr)

lemma Statement_const_dispatch_OptInConstDispatch:
  "Statement_const_dispatch handler (OptInConstDispatch d) n s =
     (if isVal (ir s n) then Val_const_dispatch handler d n s
      else if isExpr (ir s n) then Expr_const_dispatch handler d n s
      else TORCH_INTERNAL_ASSERT ''Unknown stmttype in dispatch!'' s)"
  by (simp add: Statement_const_dispatch_def base_class_Val base_class_Expr)

lemma Statement_mutator_dispatch_OptOutMutator:
  "Statement_mutator_dispatch handler (OptOutMutator d) n s =
     (if isVal (ir s n) then Val_mutator_dispatch handler d n s
      else if isExpr (ir s n) then Expr_mutator_dispatch handler d n s
      else TORCH_INTERNAL_ASSERT ''Unknown stmttype in dispatch!'' s)"
  by (simp add: Statement_mutator_dispatch_def base_class_Val base_class_Expr)

section \<open>Mutate at the Expr level\<close>

text \<open>
  What \<^verbatim>\<open>Expr::mutator_dispatch\<close> does for each tag of the enumeration: for six of the
  seven kinds it returns what the \<open>mutate\<close> overload of that kind returns, on the node
  it was given; for \<^verbatim>\<open>IfThenElse\<close> it returns what the overload for \<^verbatim>\<open>ForLoop\<close> returns.
\<close>

lemma Expr_mutator_dispatch_by_tag:
  "getExprType (ir s n) = Split \<Longrightarrow>
     Expr_mutator_dispatch mutator m n s = call mutator (mutate_Split m) n s"
  "getExprType (ir s n) = Merge \<Longrightarrow>
     Expr_mutator_dispatch mutator m n s = call mutator (mutate_Merge m) n s"
  "getExprType (ir s n) = Reorder \<Longrightarrow>
     Expr_mutator_dispatch mutator m n s = call mutator (mutate_Reorder m) n s"
  "getExprType (ir s n) = UnaryOp \<Longrightarrow>
     Expr_mutator_dispatch mutator m n s = call mutator (mutate_UnaryOp m) n s"
  "getExprType (ir s n) = BinaryOp \<Longrightarrow>
     Expr_mutator_dispatch mutator m n s = call mutator (mutate_BinaryOp m) n s"
  "getExprType (ir s n) = ForLoop \<Longrightarrow>
     Expr_mutator_dispatch mutator m n s = call mutator (mutate_ForLoop m) n s"
  "getExprType (ir s n) = IfThenElse \<Longrightarrow>
     Expr_mutator_dispatch mutator m n s = call mutator (mutate_ForLoop m) n s"
  by (simp_all add: Expr_mutator_dispatch_def)

text \<open>
  Claim C1 says that an IfThenElse node dispatched through Mutate invokes the
  \<open>mutate\<close> overload for IfThenElse. On the recording mutator and an IfThenElse node at
  address 0 the source invokes the overload for ForLoop instead: the log holds
  \<open>on_ForLoop\<close> and the result is node 7, where the overload for IfThenElse logs
  \<open>on_IfThenElse\<close> and answers node 9. Visit and Const-Visit reach the overload for
  IfThenElse on the same node.
\<close>

theorem mutate_IfThenElse_invokes_ForLoop_overload:
  "Expr_mutator_dispatch Pointer (mutate_recorder replacement) 0 (start (\<lambda>a. Expr_node IfThenElse)) =
     (Inr 7, \<lparr>ir = \<lambda>a. Expr_node IfThenElse, receiver = 1, world = [(on_ForLoop, 0)]\<rparr>) \<and>
   mutate_IfThenElse (mutate_recorder replacement) 0 (start (\<lambda>a. Expr_node IfThenElse)) =
     (Inr 9, \<lparr>ir = \<lambda>a. Expr_node IfThenElse, receiver = 1, world = [(on_IfThenElse, 0)]\<rparr>) \<and>
   Expr_dispatch Pointer recorder 0 (start (\<lambda>a. Expr_node IfThenElse)) =
     (Inr (), \<lparr>ir = \<lambda>a. Expr_node IfThenElse, receiver = 1, world = [(on_IfThenElse, 0)]\<rparr>) \<and>
   Expr_const_dispatch Pointer const_recorder 0 (start (\<lambda>a. Expr_node IfThenElse)) =
     (Inr (), \<lparr>ir = \<lambda>a. Expr_node IfThenElse, receiver = 1, world = [(on_IfThenElse, 0)]\<rparr>)"
  by (simp add: Expr_mutator_dispatch_def Expr_dispatch_def Expr_const_dispatch_def start_def
      Expr_node_def call_Pointer const_call_Pointer mutate_recorder_def recorder_def
      const_recorder_def record_mutate_def record_handle_def record_const_handle_def
      replacement_def)

section \<open>Visit reaches the overload of the node's concrete kind\<close>

text \<open>
  Claim C2. For every kind tag of the Val enumeration (Scalar split by its secondary tag
  into Float and Int) and every kind tag of the Expr enumeration, \<^verbatim>\<open>Val::dispatch\<close> and
  \<^verbatim>\<open>Expr::dispatch\<close> do nothing but invoke, once and on the node they were given, the
  \<open>handle\<close> overload whose parameter type is that concrete kind; the result is the
  overload's, so the assertion after the switch is not reached.
\<close>

theorem visit_invokes_matching_overload:
  "(getValType (ir s n) = IterDomain \<longrightarrow>
      Val_dispatch handler d n s = call handler (handle_IterDomain d) n s) \<and>
   (getValType (ir s n) = TensorDomain \<longrightarrow>
      Val_dispatch handler d n s = call handler (handle_TensorDomain d) n s) \<and>
   (getValType (ir s n) = Tensor \<longrightarrow>
      Val_dispatch handler d n s = call handler (handle_Tensor d) n s) \<and>
   (getValType (ir s n) = TensorView \<longrightarrow>
      Val_dispatch handler d n s = call handler (handle_TensorView d) n s) \<and>
   (getValType (ir s n) = Scalar \<and> getDataType (ir s n) = Float \<longrightarrow>
      Val_dispatch handler d n s = call handler (handle_Float d) n s) \<and>
   (getValType (ir s n) = Scalar \<and> getDataType (ir s n) = Int' \<longrightarrow>
      Val_dispatch handler d n s = call handler (handle_Int d) n s) \<and>
   (getExprType (ir s n) = Split \<longrightarrow>
      Expr_dispatch handler d n s = call handler (handle_Split d) n s) \<and>
   (getExprType (ir s n) = Merge \<longrightarrow>
      Expr_dispatch handler d n s = call handler (handle_Merge d) n s) \<and>
   (getExprType (ir s n) = Reorder \<longrightarrow>
      Expr_dispatch handler d n s = call handler (handle_Reorder d) n s) \<and>
   (getExprType (ir s n) = UnaryOp \<longrightarrow>
      Expr_dispatch handler d n s = call handler (handle_UnaryOp d) n s) \<and>
   (getExprType (ir s n) = BinaryOp \<longrightarrow>
      Expr_dispatch handler d n s = call handler (handle_BinaryOp d) n s) \<and>
   (getExprType (ir s n) = ForLoop \<longrightarrow>
      Expr_dispatch handler d n s = call handler (handle_ForLoop d) n s) \<and>
   (getExprType (ir s n) = IfThenElse \<longrightarrow>
      Expr_dispatch handler d n s = call handler (handle_IfThenElse d) n s)"
  by (simp add: Val_dispatch_def Expr_dispatch_def)

text \<open>
  The recording handler on one node of each concrete kind, through a pointer: the
  overload of that kind is called once with node 0, and the call returns.
\<close>

theorem visit_invokes_matching_overload_witness:
  "Val_dispatch Pointer recorder 0 (start (\<lambda>a. Val_node IterDomain Float)) =
     (Inr (), \<lparr>ir = \<lambda>a. Val_node IterDomain Float, receiver = 1, world = [(on_IterDomain, 0)]\<rparr>) \<and>
   Val_dispatch Pointer recorder 0 (start (\<lambda>a. Val_node TensorDomain Float)) =
     (Inr (), \<lparr>ir = \<lambda>a. Val_node TensorDomain Float, receiver = 1, world = [(on_TensorDomain, 0)]\<rparr>) \<and>
   Val_dispatch Pointer recorder 0 (start (\<lambda>a. Val_node Tensor Float)) =
     (Inr (), \<lparr>ir = \<lambda>a. Val_node Tensor Float, receiver = 1, world = [(on_Tensor, 0)]\<rparr>) \<and>
   Val_dispatch Pointer recorder 0 (start (\<lambda>a. Val_node TensorView Float)) =
     (Inr (), \<lparr>ir = \<lambda>a. Val_node TensorView Float, receiver = 1, world = [(on_TensorView, 0)]\<rparr>) \<and>
   Val_dispatch Pointer recorder 0 (start (\<lambda>a. Val_node Scalar Float)) =
     (Inr (), \<lparr>ir = \<lambda>a. Val_node Scalar Float, receiver = 1, world = [(on_Float, 0)]\<rparr>) \<and>
   Val_dispatch Pointer recorder 0 (start (\<lambda>a. Val_node Scalar Int')) =
     (Inr (), \<lparr>ir = \<lambda>a. Val_node Scalar Int', receiver = 1, world = [(on_Int, 0)]\<rparr>) \<and>
   Expr_dispatch Pointer recorder 0 (start (\<lambda>a. Expr_node Split)) =
     (Inr (), \<lparr>ir = \<lambda>a. Expr_node Split, receiver = 1, world = [(on_Split, 0)]\<rparr>) \<and>
   Expr_dispatch Pointer recorder 0 (start (\<lambda>a. Expr_node Merge)) =
     (Inr (), \<lparr>ir = \<lambda>a. Expr_node Merge, receiver = 1, world = [(on_Merge, 0)]\<rparr>) \<and>
   Expr_dispatch Pointer recorder 0 (start (\<lambda>a. Expr_node Reorder)) =
     (Inr (), \<lparr>ir = \<lambda>a. Expr_node Reorder, receiver = 1, world = [(on_Reorder, 0)]\<rparr>) \<and>
   Expr_dispatch Pointer recorder 0 (start (\<lambda>a. Expr_node UnaryOp)) =
     (Inr (), \<lparr>ir = \<lambda>a. Expr_node UnaryOp, receiver = 1, world = [(on_UnaryOp, 0)]\<rparr>) \<and>
   Expr_dispatch Pointer recorder 0 (start (\<lambda>a. Expr_node BinaryOp)) =
     (Inr (), \<lparr>ir = \<lambda>a. Expr_node BinaryOp, receiver = 1, world = [(on_BinaryOp, 0)]\<rparr>) \<and>
   Expr_dispatch Pointer recorder 0 (start (\<lambda>a. Expr_node ForLoop)) =
     (Inr (), \<lparr>ir = \<lambda>a. Expr_node ForLoop, receiver = 1, world = [(on_ForLoop, 0)]\<rparr>) \<and>
   Expr_dispatch Pointer recorder 0 (start (\<lambda>a. Expr_node IfThenElse)) =
     (Inr (), \<lparr>ir = \<lambda>a. Expr_node IfThenElse, receiver = 1, world = [(on_IfThenElse, 0)]\<rparr>)"
  (is "?k0 \<and> ?k1 \<and> ?k2 \<and> ?k3 \<and> ?k4 \<and> ?k5 \<and> ?k6 \<and>
      ?k7 \<and> ?k8 \<and> ?k9 \<and> ?k10 \<and> ?k11 \<and> ?k12")
proof -
  note run = start_def Val_node_def Expr_node_def call_Pointer recorder_def record_handle_def
  have k0: ?k0
    using visit_invokes_matching_overload
      [of "start (\<lambda>a. Val_node IterDomain Float)" 0 Pointer recorder]
    by (simp add: run)
  have k1: ?k1
    using visit_invokes_matching_overload
      [of "start (\<lambda>a. Val_node TensorDomain Float)" 0 Pointer recorder]
    by (simp add: run)
  have k2: ?k2
    using visit_invokes_matching_overload
      [of "start (\<lambda>a. Val_node Tensor Float)" 0 Pointer recorder]
    by (simp add: run)
  have k3: ?k3
    using visit_invokes_matching_overload
      [of "start (\<lambda>a. Val_node TensorView Float)" 0 Pointer recorder]
    by (simp add: run)
  have k4: ?k4
    using visit_invokes_matching_overload
      [of "start (\<lambda>a. Val_node Scalar Float)" 0 Pointer recorder]
    by (simp add: run)
  have k5: ?k5
    using visit_invokes_matching_overload
      [of "start (\<lambda>a. Val_node Scalar Int')" 0 Pointer recorder]
    by (simp add: run)
  have k6: ?k6
    using visit_invokes_matching_overload
      [of "start (\<lambda>a. Expr_node Split)" 0 Pointer recorder]
    by (simp add: run)
  have k7: ?k7
    using visit_invokes_matching_overload
      [of "start (\<lambda>a. Expr_node Merge)" 0 Pointer recorder]
    by (simp add: run)
  have k8: ?k8
    using visit_invokes_matching_overload
      [of "start (\<lambda>a. Expr_node Reorder)" 0 Pointer recorder]
    by (simp add: run)
  have k9: ?k9
    using visit_invokes_matching_overload
      [of "start (\<lambda>a. Expr_node UnaryOp)" 0 Pointer recorder]
    by (simp add: run)
  have k10: ?k10
    using visit_invokes_matching_overload
      [of "start (\<lambda>a. Expr_node BinaryOp)" 0 Pointer recorder]
    by (simp add: run)
  have k11: ?k11
    using visit_invokes_matching_overload
      [of "start (\<lambda>a. Expr_node ForLoop)" 0 Pointer recorder]
    by (simp add: run)
  have k12: ?k12
    using visit_invokes_matching_overload
      [of "start (\<lambda>a. Expr_node IfThenElse)" 0 Pointer recorder]
    by (simp add: run)
  show ?thesis
    using k0 k1 k2 k3 k4 k5 k6 k7 k8 k9 k10 k11 k12
    by blast
qed

section \<open>A tag outside the switch is fatal\<close>

text \<open>
  Claim C3. When the tag of the node matches no case of the switch (a ValType outside
  the enumeration, a DataType other than Float and Int under Scalar, an ExprType outside
  the enumeration, or a Statement that is neither a Val nor an Expr), each of the nine
  dispatch functions throws the internal assertion in the state it was entered in:
  no overload has run, no result is made up, and the function does not return. The
  same holds at the Statement level for the base classes of the source, when the
  category test passes and the kind tag is unknown.
\<close>

theorem unknown_tag_is_fatal:
  "(getValType (ir s n) \<notin> {IterDomain, TensorDomain, Tensor, TensorView, Scalar} \<or>
    getValType (ir s n) = Scalar \<and> getDataType (ir s n) \<notin> {Float, Int'} \<longrightarrow>
      Val_dispatch handler d n s = (Inl (InternalAssert ''Unknown valtype in dispatch!''), s) \<and>
      Val_const_dispatch handler c n s = (Inl (InternalAssert ''Unknown valtype in dispatch!''), s) \<and>
      Val_mutator_dispatch handler m n s = (Inl (InternalAssert ''Unknown valtype in dispatch!''), s)) \<and>
   (getExprType (ir s n) \<notin> {Split, Merge, Reorder, UnaryOp, BinaryOp, ForLoop, IfThenElse} \<longrightarrow>
      Expr_dispatch handler d n s = (Inl (InternalAssert ''Unknown exprtype in dispatch!''), s) \<and>
      Expr_const_dispatch handler c n s = (Inl (InternalAssert ''Unknown exprtype in dispatch!''), s) \<and>
      Expr_mutator_dispatch handler m n s = (Inl (InternalAssert ''Unknown exprtype in dispatch!''), s)) \<and>
   (\<not> isVal (ir s n) \<and> \<not> isExpr (ir s n) \<longrightarrow>
      Statement_dispatch handler d n s = (Inl (InternalAssert ''Unknown stmttype in dispatch!''), s) \<and>
      Statement_const_dispatch handler c n s = (Inl (InternalAssert ''Unknown stmttype in dispatch!''), s) \<and>
      Statement_mutator_dispatch handler m n s = (Inl (InternalAssert ''Unknown stmttype in dispatch!''), s)) \<and>
   (isVal (ir s n) \<and>
    (getValType (ir s n) \<notin> {IterDomain, TensorDomain, Tensor, TensorView, Scalar} \<or>
     getValType (ir s n) = Scalar \<and> getDataType (ir s n) \<notin> {Float, Int'}) \<longrightarrow>
      Statement_dispatch handler (OptOutDispatch d) n s =
        (Inl (InternalAssert ''Unknown valtype in dispatch!''), s) \<and>
      Statement_dispatch handler (OptInDispatch d) n s =
        (Inl (InternalAssert ''Unknown valtype in dispatch!''), s) \<and>
      Statement_const_dispatch handler (OptInConstDispatch c) n s =
        (Inl (InternalAssert ''Unknown valtype in dispatch!''), s) \<and>
      Statement_mutator_dispatch handler (OptOutMutator m) n s =
        (Inl (InternalAssert ''Unknown valtype in dispatch!''), s)) \<and>
   (\<not> isVal (ir s n) \<and> isExpr (ir s n) \<and>
    getExprType (ir s n) \<notin> {Split, Merge, Reorder, UnaryOp, BinaryOp, ForLoop, IfThenElse} \<longrightarrow>
      Statement_dispatch handler (OptOutDispatch d) n s =
        (Inl (InternalAssert ''Unknown exprtype in dispatch!''), s) \<and>
      Statement_dispatch handler (OptInDispatch d) n s =
        (Inl (InternalAssert ''Unknown exprtype in dispatch!''), s) \<and>
      Statement_const_dispatch handler (OptInConstDispatch c) n s =
        (Inl (InternalAssert ''Unknown exprtype in dispatch!''), s) \<and>
      Statement_mutator_dispatch handler (OptOutMutator m) n s =
        (Inl (InternalAssert ''Unknown exprtype in dispatch!''), s))"
  (is "(?hv \<longrightarrow> ?cv) \<and> (?he \<longrightarrow> ?ce) \<and> (?hs \<longrightarrow> ?cs) \<and> (?hbv \<longrightarrow> ?cbv) \<and>
       (?hbe \<longrightarrow> ?cbe)")
proof -
  have val: ?cv if ?hv
    using that
    by (cases "getValType (ir s n)"; cases "getDataType (ir s n)")
      (simp_all add: Val_dispatch_def Val_const_dispatch_def Val_mutator_dispatch_def
        TORCH_INTERNAL_ASSERT_def)
  have expr: ?ce if ?he
    using that
    by (cases "getExprType (ir s n)")
      (simp_all add: Expr_dispatch_def Expr_const_dispatch_def Expr_mutator_dispatch_def
        TORCH_INTERNAL_ASSERT_def)
  have stmt: ?cs if ?hs
    using that
    by (simp add: Statement_dispatch_def Statement_const_dispatch_def
        Statement_mutator_dispatch_def TORCH_INTERNAL_ASSERT_def)
  have base_val: ?cbv if ?hbv
    using that val
    by (simp add: Statement_dispatch_OptOutDispatch Statement_dispatch_OptInDispatch
        Statement_const_dispatch_OptInConstDispatch Statement_mutator_dispatch_OptOutMutator)
  have base_expr: ?cbe if ?hbe
    using that expr
    by (simp add: Statement_dispatch_OptOutDispatch Statement_dispatch_OptInDispatch
        Statement_const_dispatch_OptInConstDispatch Statement_mutator_dispatch_OptOutMutator)
  show ?thesis
    using val expr stmt base_val base_expr by blast
qed

text \<open>
  The recording handlers on a Val with a tag outside the enumeration, a Scalar with a
  secondary tag outside it, an Expr with a tag outside the enumeration and a Statement
  of neither category: the assertion is thrown, the log stays empty and no call is
  counted.
\<close>

theorem unknown_tag_is_fatal_witness:
  "Val_dispatch Pointer recorder 0 (start (\<lambda>a. Val_node (OtherValType 5) Float)) =
     (Inl (InternalAssert ''Unknown valtype in dispatch!''),
      \<lparr>ir = \<lambda>a. Val_node (OtherValType 5) Float, receiver = 0, world = []\<rparr>) \<and>
   Val_mutator_dispatch Pointer (mutate_recorder replacement) 0
       (start (\<lambda>a. Val_node Scalar (OtherDataType 2))) =
     (Inl (InternalAssert ''Unknown valtype in dispatch!''),
      \<lparr>ir = \<lambda>a. Val_node Scalar (OtherDataType 2), receiver = 0, world = []\<rparr>) \<and>
   Expr_const_dispatch Pointer const_recorder 0 (start (\<lambda>a. Expr_node (OtherExprType 9))) =
     (Inl (InternalAssert ''Unknown exprtype in dispatch!''),
      \<lparr>ir = \<lambda>a. Expr_node (OtherExprType 9), receiver = 0, world = []\<rparr>) \<and>
   Statement_dispatch (Instance 4) recorder 0 (start (\<lambda>a. (Expr_node Split)\<lparr>isExpr := False\<rparr>)) =
     (Inl (InternalAssert ''Unknown stmttype in dispatch!''),
      \<lparr>ir = \<lambda>a. (Expr_node Split)\<lparr>isExpr := False\<rparr>, receiver = 0, world = []\<rparr>) \<and>
   Statement_dispatch Pointer (OptOutDispatch recorder) 0
       (start (\<lambda>a. Val_node Scalar (OtherDataType 2))) =
     (Inl (InternalAssert ''Unknown valtype in dispatch!''),
      \<lparr>ir = \<lambda>a. Val_node Scalar (OtherDataType 2), receiver = 0, world = []\<rparr>) \<and>
   Statement_mutator_dispatch Pointer (OptOutMutator (mutate_recorder replacement)) 0
       (start (\<lambda>a. Expr_node (OtherExprType 9))) =
     (Inl (InternalAssert ''Unknown exprtype in dispatch!''),
      \<lparr>ir = \<lambda>a. Expr_node (OtherExprType 9), receiver = 0, world = []\<rparr>)"
proof -
  note ev = start_def Val_node_def Expr_node_def
  have a: "Val_dispatch Pointer recorder 0 (start (\<lambda>a. Val_node (OtherValType 5) Float)) =
     (Inl (InternalAssert ''Unknown valtype in dispatch!''),
      \<lparr>ir = \<lambda>a. Val_node (OtherValType 5) Float, receiver = 0, world = []\<rparr>)"
    using unknown_tag_is_fatal [where s = "start (\<lambda>a. Val_node (OtherValType 5) Float)"
        and n = 0 and handler = Pointer and d = recorder and c = const_recorder
        and m = "mutate_recorder replacement"]
    by (simp add: ev)
  have b: "Val_mutator_dispatch Pointer (mutate_recorder replacement) 0
       (start (\<lambda>a. Val_node Scalar (OtherDataType 2))) =
     (Inl (InternalAssert ''Unknown valtype in dispatch!''),
      \<lparr>ir = \<lambda>a. Val_node Scalar (OtherDataType 2), receiver = 0, world = []\<rparr>)"
    and e: "Statement_dispatch Pointer (OptOutDispatch recorder) 0
       (start (\<lambda>a. Val_node Scalar (OtherDataType 2))) =
     (Inl (InternalAssert ''Unknown valtype in dispatch!''),
      \<lparr>ir = \<lambda>a. Val_node Scalar (OtherDataType 2), receiver = 0, world = []\<rparr>)"
    using unknown_tag_is_fatal [where s = "start (\<lambda>a. Val_node Scalar (OtherDataType 2))"
        and n = 0 and handler = Pointer and d = recorder and c = const_recorder
        and m = "mutate_recorder replacement"]
    by (simp_all add: ev)
  have c: "Expr_const_dispatch Pointer const_recorder 0 (start (\<lambda>a. Expr_node (OtherExprType 9))) =
     (Inl (InternalAssert ''Unknown exprtype in dispatch!''),
      \<lparr>ir = \<lambda>a. Expr_node (OtherExprType 9), receiver = 0, world = []\<rparr>)"
    and f: "Statement_mutator_dispatch Pointer (OptOutMutator (mutate_recorder replacement)) 0
       (start (\<lambda>a. Expr_node (OtherExprType 9))) =
     (Inl (InternalAssert ''Unknown exprtype in dispatch!''),
      \<lparr>ir = \<lambda>a. Expr_node (OtherExprType 9), receiver = 0, world = []\<rparr>)"
    using unknown_tag_is_fatal [where s = "start (\<lambda>a. Expr_node (OtherExprType 9))"
        and n = 0 and handler = Pointer and d = recorder and c = const_recorder
        and m = "mutate_recorder replacement"]
    by (simp_all add: ev)
  have d: "Statement_dispatch (Instance 4) recorder 0
       (start (\<lambda>a. (Expr_node Split)\<lparr>isExpr := False\<rparr>)) =
     (Inl (InternalAssert ''Unknown stmttype in dispatch!''),
      \<lparr>ir = \<lambda>a. (Expr_node Split)\<lparr>isExpr := False\<rparr>, receiver = 0, world = []\<rparr>)"
    using unknown_tag_is_fatal [where s = "start (\<lambda>a. (Expr_node Split)\<lparr>isExpr := False\<rparr>)"
        and n = 0 and handler = "Instance 4" and d = recorder and c = const_recorder
        and m = "mutate_recorder replacement"]
    by (simp add: ev)
  show ?thesis
    using a b c d e f by blast
qed

section \<open>Statement-level and category-level entries agree\<close>



section \<open>What Mutate returns\<close>

text \<open>
  Scenario B of the specification: for a ForLoop, the Statement-level entry of
  \<^verbatim>\<open>OptOutMutator\<close> and the Expr-level entry both have the outcome of the overload for
  ForLoop, so they return the Statement it returns.
\<close>

lemma mutate_ForLoop_returned_unmodified:
  assumes "\<not> isVal (ir s n)" and "isExpr (ir s n)" and "getExprType (ir s n) = ForLoop"
  shows "Statement_mutator_dispatch Pointer (OptOutMutator m) n s = mutate_ForLoop m n s"
    and "Expr_mutator_dispatch Pointer (OptOutMutator m) n s = mutate_ForLoop m n s"
  using assms
  by (simp_all add: Statement_mutator_dispatch_OptOutMutator Expr_mutator_dispatch_OptOutMutator
      Expr_mutator_dispatch_def call_Pointer)

text \<open>
  Claim C5 says that every branch of the Mutate dispatch returns the Statement produced
  by the \<open>mutate\<close> overload for the concrete kind of the node. On an IfThenElse node at
  address 0 and the recording mutator derived from \<^verbatim>\<open>OptOutMutator\<close>, the overload for
  IfThenElse produces node 9, and both the Statement-level and the Expr-level entry
  return node 7, which the overload for ForLoop produces.
\<close>

theorem mutate_IfThenElse_returns_ForLoop_result:
  "fst (Statement_mutator_dispatch Pointer (OptOutMutator (mutate_recorder replacement)) 0
          (start (\<lambda>a. Expr_node IfThenElse))) = Inr 7 \<and>
   fst (Expr_mutator_dispatch Pointer (OptOutMutator (mutate_recorder replacement)) 0
          (start (\<lambda>a. Expr_node IfThenElse))) = Inr 7 \<and>
   fst (mutate_IfThenElse (OptOutMutator (mutate_recorder replacement)) 0
          (start (\<lambda>a. Expr_node IfThenElse))) = Inr 9 \<and>
   fst (mutate_ForLoop (OptOutMutator (mutate_recorder replacement)) 0
          (start (\<lambda>a. Expr_node IfThenElse))) = Inr 7"
  by (simp add: Statement_mutator_dispatch_OptOutMutator Expr_mutator_dispatch_OptOutMutator
      Expr_mutator_dispatch_def OptOutMutator_concrete start_def Expr_node_def call_Pointer
      mutate_recorder_def record_mutate_def replacement_def)

section \<open>Handler passed as an instance or through a pointer\<close>

text \<open>
  Claim C6 holds for everything but the handler object. \<open>d\<close> is the class of the object
  the overloads run on: for a by-value argument the class the template is instantiated
  with, of which the argument is a copy (a derived object passed by value is cut down to
  it), for a pointer the class of the object pointed to. For a handler object \<open>obj\<close> of
  that class, dispatching with a copy of \<open>obj\<close> is dispatching through a pointer to
  \<open>obj\<close>, except that the caller's own handler object keeps the state it had: the same
  overload runs on the same node and on the same object state, it returns the same
  result (for Mutate the same Statement), and it leaves the same nodes and the same
  world. This holds for all nine dispatch functions.
\<close>

theorem instance_form_agrees_with_pointer_form:
  "Val_dispatch (Instance obj) d n s =
     (case Val_dispatch Pointer d n (s\<lparr>receiver := obj\<rparr>) of
        (r, s') \<Rightarrow> (r, s'\<lparr>receiver := receiver s\<rparr>)) \<and>
   Val_const_dispatch (Instance obj) c n s =
     (case Val_const_dispatch Pointer c n (s\<lparr>receiver := obj\<rparr>) of
        (r, s') \<Rightarrow> (r, s'\<lparr>receiver := receiver s\<rparr>)) \<and>
   Val_mutator_dispatch (Instance obj) m n s =
     (case Val_mutator_dispatch Pointer m n (s\<lparr>receiver := obj\<rparr>) of
        (r, s') \<Rightarrow> (r, s'\<lparr>receiver := receiver s\<rparr>)) \<and>
   Expr_dispatch (Instance obj) d n s =
     (case Expr_dispatch Pointer d n (s\<lparr>receiver := obj\<rparr>) of
        (r, s') \<Rightarrow> (r, s'\<lparr>receiver := receiver s\<rparr>)) \<and>
   Expr_const_dispatch (Instance obj) c n s =
     (case Expr_const_dispatch Pointer c n (s\<lparr>receiver := obj\<rparr>) of
        (r, s') \<Rightarrow> (r, s'\<lparr>receiver := receiver s\<rparr>)) \<and>
   Expr_mutator_dispatch (Instance obj) m n s =
     (case Expr_mutator_dispatch Pointer m n (s\<lparr>receiver := obj\<rparr>) of
        (r, s') \<Rightarrow> (r, s'\<lparr>receiver := receiver s\<rparr>)) \<and>
   Statement_dispatch (Instance obj) d n s =
     (case Statement_dispatch Pointer d n (s\<lparr>receiver := obj\<rparr>) of
        (r, s') \<Rightarrow> (r, s'\<lparr>receiver := receiver s\<rparr>)) \<and>
   Statement_const_dispatch (Instance obj) c n s =
     (case Statement_const_dispatch Pointer c n (s\<lparr>receiver := obj\<rparr>) of
        (r, s') \<Rightarrow> (r, s'\<lparr>receiver := receiver s\<rparr>)) \<and>
   Statement_mutator_dispatch (Instance obj) m n s =
     (case Statement_mutator_dispatch Pointer m n (s\<lparr>receiver := obj\<rparr>) of
        (r, s') \<Rightarrow> (r, s'\<lparr>receiver := receiver s\<rparr>))"
  (is "?e0 \<and> ?e1 \<and> ?e2 \<and> ?e3 \<and> ?e4 \<and> ?e5 \<and> ?e6 \<and>
      ?e7 \<and> ?e8")
proof -
  note unfold = call_def const_call_def ptr_def leave_def TORCH_INTERNAL_ASSERT_def
    case_prod_unfold
  have e0: ?e0
    by (cases "getValType (ir s n)"; cases "getDataType (ir s n)")
      (simp_all add: Val_dispatch_def unfold)
  have e1: ?e1
    by (cases "getValType (ir s n)"; cases "getDataType (ir s n)")
      (simp_all add: Val_const_dispatch_def unfold)
  have e2: ?e2
    by (cases "getValType (ir s n)"; cases "getDataType (ir s n)")
      (simp_all add: Val_mutator_dispatch_def unfold)
  have e3: ?e3
    by (cases "getExprType (ir s n)")
      (simp_all add: Expr_dispatch_def unfold)
  have e4: ?e4
    by (cases "getExprType (ir s n)")
      (simp_all add: Expr_const_dispatch_def unfold)
  have e5: ?e5
    by (cases "getExprType (ir s n)")
      (simp_all add: Expr_mutator_dispatch_def unfold)
  have e6: ?e6
    by (simp add: Statement_dispatch_def unfold)
  have e7: ?e7
    by (simp add: Statement_const_dispatch_def unfold)
  have e8: ?e8
    by (simp add: Statement_mutator_dispatch_def unfold)
  show ?thesis
    using e0 e1 e2 e3 e4 e5 e6 e7 e8
    by blast
qed

text \<open>
  The recording handler on a Float scalar and the recording mutator on a ForLoop, in
  both forms: the same overload is logged with the same node and the same Statement is
  returned; the call is counted in the caller's object only through the pointer.
\<close>

theorem instance_form_agrees_with_pointer_form_witness:
  "Val_dispatch (Instance 0) recorder 0 (start (\<lambda>a. Val_node Scalar Float)) =
     (Inr (), \<lparr>ir = \<lambda>a. Val_node Scalar Float, receiver = 0, world = [(on_Float, 0)]\<rparr>) \<and>
   Val_dispatch Pointer recorder 0 (start (\<lambda>a. Val_node Scalar Float)) =
     (Inr (), \<lparr>ir = \<lambda>a. Val_node Scalar Float, receiver = 1, world = [(on_Float, 0)]\<rparr>) \<and>
   Expr_mutator_dispatch (Instance 0) (mutate_recorder replacement) 0
       (start (\<lambda>a. Expr_node ForLoop)) =
     (Inr 7, \<lparr>ir = \<lambda>a. Expr_node ForLoop, receiver = 0, world = [(on_ForLoop, 0)]\<rparr>) \<and>
   Expr_mutator_dispatch Pointer (mutate_recorder replacement) 0
       (start (\<lambda>a. Expr_node ForLoop)) =
     (Inr 7, \<lparr>ir = \<lambda>a. Expr_node ForLoop, receiver = 1, world = [(on_ForLoop, 0)]\<rparr>)"
  (is "?vi \<and> ?vp \<and> ?ei \<and> ?ep")
proof -
  have same: "(start nodes)\<lparr>receiver := 0\<rparr> = start nodes" for nodes
    by (simp add: start_def)
  have vp: ?vp
    by (simp add: Val_dispatch_def start_def Val_node_def call_Pointer recorder_def
        record_handle_def)
  have ep: ?ep
    by (simp add: Expr_mutator_dispatch_def start_def Expr_node_def call_Pointer
        mutate_recorder_def record_mutate_def replacement_def)
  have vi: ?vi
    using instance_form_agrees_with_pointer_form
      [where obj = 0 and d = recorder and n = 0 and s = "start (\<lambda>a. Val_node Scalar Float)"]
    by (simp add: same vp) (simp add: start_def)
  have ei: ?ei
    using instance_form_agrees_with_pointer_form
      [where obj = 0 and m = "mutate_recorder replacement" and n = 0
        and s = "start (\<lambda>a. Expr_node ForLoop)"]
    by (simp add: same ep) (simp add: start_def)
  show ?thesis
    using vi vp ei ep by blast
qed

text \<open>
  Claim C6 says that the two forms are observationally equivalent. They are not in the
  handler object: the recording handler counts its calls in its own object, and after
  the visit of a Float scalar the caller's object holds 0 calls when it was passed by
  value and 1 call when it was passed through a pointer.
\<close>

theorem instance_and_pointer_forms_differ_in_handler_object:
  "receiver (start (\<lambda>a. Val_node Scalar Float)) = 0 \<and>
   receiver (snd (Val_dispatch (Instance 0) recorder 0 (start (\<lambda>a. Val_node Scalar Float)))) = 0 \<and>
   receiver (snd (Val_dispatch Pointer recorder 0 (start (\<lambda>a. Val_node Scalar Float)))) = 1 \<and>
   Val_dispatch (Instance 0) recorder 0 (start (\<lambda>a. Val_node Scalar Float)) \<noteq>
     Val_dispatch Pointer recorder 0 (start (\<lambda>a. Val_node Scalar Float))"
  by (simp add: Val_dispatch_def start_def Val_node_def call_Pointer call_Instance recorder_def
      record_handle_def)

section \<open>Const-Visit writes no node itself\<close>

text \<open>
  Claim C7 holds for the dispatcher and fails for the node. The Const-Visit functions
  pass the node as a pointer to const to the one overload of the handler's read-only
  family that matches its tags, and write no node themselves: the IR after the dispatch
  is unchanged whenever the read-only overloads that can be reached write no node. The
  same holds for a class derived from \<^verbatim>\<open>OptInConstDispatch\<close>, entered at the Statement
  level. That a read-only overload writes no node is not implied by its parameter type.
\<close>

theorem const_visit_writes_no_node_itself:
  "(getValType (ir s n) = IterDomain \<longrightarrow>
      Val_const_dispatch handler c n s = const_call handler (const_handle_IterDomain c) n s) \<and>
   (getValType (ir s n) = TensorDomain \<longrightarrow>
      Val_const_dispatch handler c n s = const_call handler (const_handle_TensorDomain c) n s) \<and>
   (getValType (ir s n) = Tensor \<longrightarrow>
      Val_const_dispatch handler c n s = const_call handler (const_handle_Tensor c) n s) \<and>
   (getValType (ir s n) = TensorView \<longrightarrow>
      Val_const_dispatch handler c n s = const_call handler (const_handle_TensorView c) n s) \<and>
   (getValType (ir s n) = Scalar \<and> getDataType (ir s n) = Float \<longrightarrow>
      Val_const_dispatch handler c n s = const_call handler (const_handle_Float c) n s) \<and>
   (getValType (ir s n) = Scalar \<and> getDataType (ir s n) = Int' \<longrightarrow>
      Val_const_dispatch handler c n s = const_call handler (const_handle_Int c) n s) \<and>
   (getExprType (ir s n) = Split \<longrightarrow>
      Expr_const_dispatch handler c n s = const_call handler (const_handle_Split c) n s) \<and>
   (getExprType (ir s n) = Merge \<longrightarrow>
      Expr_const_dispatch handler c n s = const_call handler (const_handle_Merge c) n s) \<and>
   (getExprType (ir s n) = Reorder \<longrightarrow>
      Expr_const_dispatch handler c n s = const_call handler (const_handle_Reorder c) n s) \<and>
   (getExprType (ir s n) = UnaryOp \<longrightarrow>
      Expr_const_dispatch handler c n s = const_call handler (const_handle_UnaryOp c) n s) \<and>
   (getExprType (ir s n) = BinaryOp \<longrightarrow>
      Expr_const_dispatch handler c n s = const_call handler (const_handle_BinaryOp c) n s) \<and>
   (getExprType (ir s n) = ForLoop \<longrightarrow>
      Expr_const_dispatch handler c n s = const_call handler (const_handle_ForLoop c) n s) \<and>
   (getExprType (ir s n) = IfThenElse \<longrightarrow>
      Expr_const_dispatch handler c n s = const_call handler (const_handle_IfThenElse c) n s) \<and>
   (isVal (ir s n) \<longrightarrow>
      Statement_const_dispatch handler c n s = const_call handler (const_handle_Val c) n s) \<and>
   (\<not> isVal (ir s n) \<and> isExpr (ir s n) \<longrightarrow>
      Statement_const_dispatch handler c n s = const_call handler (const_handle_Expr c) n s) \<and>
   (list_all writes_no_node
      [const_handle_IterDomain c, const_handle_TensorDomain c, const_handle_Tensor c,
       const_handle_TensorView c, const_handle_Float c, const_handle_Int c] \<longrightarrow>
      ir (snd (Val_const_dispatch handler c n s)) = ir s) \<and>
   (list_all writes_no_node
      [const_handle_Split c, const_handle_Merge c, const_handle_Reorder c,
       const_handle_UnaryOp c, const_handle_BinaryOp c, const_handle_ForLoop c,
       const_handle_IfThenElse c] \<longrightarrow>
      ir (snd (Expr_const_dispatch handler c n s)) = ir s) \<and>
   (list_all writes_no_node [const_handle_Val c, const_handle_Expr c] \<longrightarrow>
      ir (snd (Statement_const_dispatch handler c n s)) = ir s) \<and>
   (list_all writes_no_node
      [const_handle_IterDomain c, const_handle_TensorDomain c, const_handle_Tensor c,
       const_handle_TensorView c, const_handle_Float c, const_handle_Int c,
       const_handle_Split c, const_handle_Merge c, const_handle_Reorder c,
       const_handle_UnaryOp c, const_handle_BinaryOp c, const_handle_ForLoop c,
       const_handle_IfThenElse c] \<longrightarrow>
      ir (snd (Statement_const_dispatch handler (OptInConstDispatch c) n s)) = ir s)"
  (is "?t0 \<and> ?t1 \<and> ?t2 \<and> ?t3 \<and> ?t4 \<and> ?t5 \<and> ?t6 \<and>
       ?t7 \<and> ?t8 \<and> ?t9 \<and> ?t10 \<and> ?t11 \<and> ?t12 \<and> ?t13 \<and> ?t14 \<and> (?hv \<longrightarrow> ?fv) \<and> (?he \<longrightarrow> ?fe) \<and> (?hs \<longrightarrow> ?fs) \<and> (?hb \<longrightarrow> ?fb)")
proof -
  have tags: ?t0 ?t1 ?t2 ?t3 ?t4 ?t5 ?t6 ?t7 ?t8 ?t9 ?t10 ?t11 ?t12 ?t13 ?t14
    by (simp_all add: Val_const_dispatch_def Expr_const_dispatch_def
        Statement_const_dispatch_def)
  have kept: "ir (snd (const_call handler h n s)) = ir s" if "writes_no_node h"
    for h :: "('a, 'b) const_handle_fn"
    using that
    by (cases handler)
      (simp_all add: const_call_def writes_no_node_def ptr_def leave_def case_prod_unfold)
  have asserted: "ir (snd (TORCH_INTERNAL_ASSERT msg s :: (error + unit) \<times> ('a, 'b) state)) = ir s"
    for msg
    by (simp add: TORCH_INTERNAL_ASSERT_def)
  have val: "ir (snd (Val_const_dispatch handler k n s)) = ir s"
    if "list_all writes_no_node
      [const_handle_IterDomain k, const_handle_TensorDomain k, const_handle_Tensor k,
       const_handle_TensorView k, const_handle_Float k, const_handle_Int k]"
    for k :: "('a, 'b) ConstDispatch"
    using that
    by (cases "getValType (ir s n)"; cases "getDataType (ir s n)")
      (simp_all add: Val_const_dispatch_def kept asserted)
  have expr: "ir (snd (Expr_const_dispatch handler k n s)) = ir s"
    if "list_all writes_no_node
      [const_handle_Split k, const_handle_Merge k, const_handle_Reorder k,
       const_handle_UnaryOp k, const_handle_BinaryOp k, const_handle_ForLoop k,
       const_handle_IfThenElse k]"
    for k :: "('a, 'b) ConstDispatch"
    using that
    by (cases "getExprType (ir s n)")
      (simp_all add: Expr_const_dispatch_def kept asserted)
  have fv: "?hv \<longrightarrow> ?fv"
    using val by blast
  have fe: "?he \<longrightarrow> ?fe"
    using expr by blast
  have fs: "?hs \<longrightarrow> ?fs"
    by (simp add: Statement_const_dispatch_def kept asserted)
  have fb: "?hb \<longrightarrow> ?fb"
    by (simp add: Statement_const_dispatch_OptInConstDispatch val expr asserted)
  show ?thesis
    by (intro conjI tags fv fe fs fb)
qed

text \<open>
  The recording read-only handler writes no node. On a Float scalar, entered at the
  Val level and at the Statement level of \<^verbatim>\<open>OptInConstDispatch\<close>, the overload for Float is
  called and the nodes are as before.
\<close>

theorem const_visit_writes_no_node_itself_witness:
  "list_all writes_no_node
     [const_handle_IterDomain const_recorder, const_handle_TensorDomain const_recorder,
      const_handle_Tensor const_recorder, const_handle_TensorView const_recorder,
      const_handle_Float const_recorder, const_handle_Int const_recorder,
      const_handle_Split const_recorder, const_handle_Merge const_recorder,
      const_handle_Reorder const_recorder, const_handle_UnaryOp const_recorder,
      const_handle_BinaryOp const_recorder, const_handle_ForLoop const_recorder,
      const_handle_IfThenElse const_recorder] \<and>
   Val_const_dispatch Pointer const_recorder 0 (start (\<lambda>a. Val_node Scalar Float)) =
     (Inr (), \<lparr>ir = \<lambda>a. Val_node Scalar Float, receiver = 1, world = [(on_Float, 0)]\<rparr>) \<and>
   ir (snd (Val_const_dispatch Pointer const_recorder 0 (start (\<lambda>a. Val_node Scalar Float)))) =
     ir (start (\<lambda>a. Val_node Scalar Float)) \<and>
   ir (snd (Statement_const_dispatch Pointer (OptInConstDispatch const_recorder) 0
       (start (\<lambda>a. Val_node Scalar Float)))) =
     ir (start (\<lambda>a. Val_node Scalar Float))"
  (is "?h \<and> ?run \<and> ?fv \<and> ?fb")
proof -
  note inst = const_visit_writes_no_node_itself
    [where handler = Pointer and c = const_recorder and n = 0
      and s = "start (\<lambda>a. Val_node Scalar Float)"]
  have h: ?h
    by (simp add: writes_no_node_def const_recorder_def record_const_handle_def)
  then have hv: "list_all writes_no_node
     [const_handle_IterDomain const_recorder, const_handle_TensorDomain const_recorder,
      const_handle_Tensor const_recorder, const_handle_TensorView const_recorder,
      const_handle_Float const_recorder, const_handle_Int const_recorder]"
    by simp
  have tags: "getValType (ir (start (\<lambda>a. Val_node Scalar Float)) 0) = Scalar \<and>
      getDataType (ir (start (\<lambda>a. Val_node Scalar Float)) 0) = Float"
    by (simp add: start_def Val_node_def)
  have "Val_const_dispatch Pointer const_recorder 0 (start (\<lambda>a. Val_node Scalar Float)) =
      const_call Pointer (const_handle_Float const_recorder) 0 (start (\<lambda>a. Val_node Scalar Float))"
    by (rule inst [THEN conjunct2, THEN conjunct2, THEN conjunct2, THEN conjunct2, THEN conjunct1,
      THEN mp, OF tags])
  then have run: ?run
    by (simp add: const_call_Pointer const_recorder_def record_const_handle_def start_def)
  have fv: ?fv
    by (rule inst [THEN conjunct2, THEN conjunct2, THEN conjunct2, THEN conjunct2, THEN conjunct2,
      THEN conjunct2, THEN conjunct2, THEN conjunct2, THEN conjunct2, THEN conjunct2,
      THEN conjunct2, THEN conjunct2, THEN conjunct2, THEN conjunct2, THEN conjunct2,
      THEN conjunct1, THEN mp, OF hv])
  have fb: ?fb
    by (rule inst [THEN conjunct2, THEN conjunct2, THEN conjunct2, THEN conjunct2, THEN conjunct2,
      THEN conjunct2, THEN conjunct2, THEN conjunct2, THEN conjunct2, THEN conjunct2,
      THEN conjunct2, THEN conjunct2, THEN conjunct2, THEN conjunct2, THEN conjunct2,
      THEN conjunct2, THEN conjunct2, THEN conjunct2, THEN mp, OF h])
  show ?thesis
    by (intro conjI h run fv fb)
qed

text \<open>
  Claim C7 says that the state of the dispatched node is unchanged by a Const-Visit
  dispatch. A handler of the read-only family that holds a non-const pointer to the
  node can write it: \<open>const_writer\<close> sets the contents of a Float scalar to 1 in its
  overload \<^verbatim>\<open>handle(const Float* const)\<close>, and the node after the dispatch is not the node
  before it.
\<close>

theorem const_overload_writes_node_through_alias:
  "contents (ir (start (\<lambda>a. Val_node Scalar Float)) 0) = 0 \<and>
   contents (ir (snd (Val_const_dispatch Pointer const_writer 0
       (start (\<lambda>a. Val_node Scalar Float)))) 0) = 1 \<and>
   ir (snd (Val_const_dispatch Pointer const_writer 0 (start (\<lambda>a. Val_node Scalar Float)))) 0 \<noteq>
     ir (start (\<lambda>a. Val_node Scalar Float)) 0"
  by (simp add: Val_const_dispatch_def const_call_Pointer const_writer_def write_contents_def
      start_def Val_node_def)

section \<open>One dispatch is one category step and one overload\<close>

text \<open>
  Claim C8 holds for the handler classes whose category-level overloads are those of the
  source, and in this form. The dispatch functions are defined without loop or
  recursion and call at most one overload. A Statement-level dispatch calls the
  Val-level overload of the handler when \<^verbatim>\<open>isVal()\<close> holds, else the Expr-level overload
  when \<^verbatim>\<open>isExpr()\<close> holds, else it throws; it never calls the Statement-level overload. A
  Val-level or Expr-level dispatch calls one overload for a concrete kind when the switch
  has a case for the tag and throws otherwise; it never calls a category-level overload.
  For a class derived from \<^verbatim>\<open>OptOutDispatch\<close>, \<^verbatim>\<open>OptInDispatch\<close>, \<^verbatim>\<open>OptInConstDispatch\<close> or
  \<^verbatim>\<open>OptOutMutator\<close> the chain entered at the Statement level is one call of one overload
  for a concrete kind when the tags have a case, and the assertion, in the state of
  entry, when they have none.
\<close>

theorem dispatch_is_one_step_then_one_overload:
  "(isVal (ir s n) \<longrightarrow>
      Statement_dispatch handler d n s = call handler (handle_Val d) n s) \<and>
   (\<not> isVal (ir s n) \<and> isExpr (ir s n) \<longrightarrow>
      Statement_dispatch handler d n s = call handler (handle_Expr d) n s) \<and>
   (\<not> isVal (ir s n) \<and> \<not> isExpr (ir s n) \<longrightarrow>
      Statement_dispatch handler d n s = (Inl (InternalAssert ''Unknown stmttype in dispatch!''), s)) \<and>
   Statement_dispatch handler (d\<lparr>handle_Statement := x1\<rparr>) n s = Statement_dispatch handler d n s \<and>
   (Val_switch_has_case (ir s n) \<longrightarrow>
      (\<exists>h\<in>set [handle_IterDomain d, handle_TensorDomain d, handle_Tensor d,
            handle_TensorView d, handle_Float d, handle_Int d].
          Val_dispatch handler d n s = call handler h n s)) \<and>
   (\<not> Val_switch_has_case (ir s n) \<longrightarrow>
      Val_dispatch handler d n s = (Inl (InternalAssert ''Unknown valtype in dispatch!''), s)) \<and>
   Val_dispatch handler (d\<lparr>handle_Statement := x1, handle_Expr := y1, handle_Val := z1\<rparr>) n s =
      Val_dispatch handler d n s \<and>
   (Expr_switch_has_case (ir s n) \<longrightarrow>
      (\<exists>h\<in>set [handle_Split d, handle_Merge d, handle_Reorder d, handle_UnaryOp d,
            handle_BinaryOp d, handle_ForLoop d, handle_IfThenElse d].
          Expr_dispatch handler d n s = call handler h n s)) \<and>
   (\<not> Expr_switch_has_case (ir s n) \<longrightarrow>
      Expr_dispatch handler d n s = (Inl (InternalAssert ''Unknown exprtype in dispatch!''), s)) \<and>
   Expr_dispatch handler (d\<lparr>handle_Statement := x1, handle_Expr := y1, handle_Val := z1\<rparr>) n s =
      Expr_dispatch handler d n s \<and>
   (isVal (ir s n) \<and> Val_switch_has_case (ir s n) \<longrightarrow>
      (\<exists>h\<in>set [handle_IterDomain d, handle_TensorDomain d, handle_Tensor d,
            handle_TensorView d, handle_Float d, handle_Int d].
          Statement_dispatch handler (OptOutDispatch d) n s = call handler h n s)) \<and>
   (\<not> isVal (ir s n) \<and> isExpr (ir s n) \<and> Expr_switch_has_case (ir s n) \<longrightarrow>
      (\<exists>h\<in>set [handle_Split d, handle_Merge d, handle_Reorder d, handle_UnaryOp d,
            handle_BinaryOp d, handle_ForLoop d, handle_IfThenElse d].
          Statement_dispatch handler (OptOutDispatch d) n s = call handler h n s)) \<and>
   (isVal (ir s n) \<and> \<not> Val_switch_has_case (ir s n) \<longrightarrow>
      Statement_dispatch handler (OptOutDispatch d) n s = (Inl (InternalAssert ''Unknown valtype in dispatch!''), s)) \<and>
   (\<not> isVal (ir s n) \<and> isExpr (ir s n) \<and> \<not> Expr_switch_has_case (ir s n) \<longrightarrow>
      Statement_dispatch handler (OptOutDispatch d) n s = (Inl (InternalAssert ''Unknown exprtype in dispatch!''), s)) \<and>
   (\<not> isVal (ir s n) \<and> \<not> isExpr (ir s n) \<longrightarrow>
      Statement_dispatch handler (OptOutDispatch d) n s = (Inl (InternalAssert ''Unknown stmttype in dispatch!''), s)) \<and>
   (isVal (ir s n) \<and> Val_switch_has_case (ir s n) \<longrightarrow>
      (\<exists>h\<in>set [handle_IterDomain d, handle_TensorDomain d, handle_Tensor d,
            handle_TensorView d, handle_Float d, handle_Int d].
          Statement_dispatch handler (OptInDispatch d) n s = call handler h n s)) \<and>
   (\<not> isVal (ir s n) \<and> isExpr (ir s n) \<and> Expr_switch_has_case (ir s n) \<longrightarrow>
      (\<exists>h\<in>set [handle_Split d, handle_Merge d, handle_Reorder d, handle_UnaryOp d,
            handle_BinaryOp d, handle_ForLoop d, handle_IfThenElse d].
          Statement_dispatch handler (OptInDispatch d) n s = call handler h n s)) \<and>
   (isVal (ir s n) \<and> \<not> Val_switch_has_case (ir s n) \<longrightarrow>
      Statement_dispatch handler (OptInDispatch d) n s = (Inl (InternalAssert ''Unknown valtype in dispatch!''), s)) \<and>
   (\<not> isVal (ir s n) \<and> isExpr (ir s n) \<and> \<not> Expr_switch_has_case (ir s n) \<longrightarrow>
      Statement_dispatch handler (OptInDispatch d) n s = (Inl (InternalAssert ''Unknown exprtype in dispatch!''), s)) \<and>
   (\<not> isVal (ir s n) \<and> \<not> isExpr (ir s n) \<longrightarrow>
      Statement_dispatch handler (OptInDispatch d) n s = (Inl (InternalAssert ''Unknown stmttype in dispatch!''), s)) \<and>
   (isVal (ir s n) \<longrightarrow>
      Statement_const_dispatch handler c n s = const_call handler (const_handle_Val c) n s) \<and>
   (\<not> isVal (ir s n) \<and> isExpr (ir s n) \<longrightarrow>
      Statement_const_dispatch handler c n s = const_call handler (const_handle_Expr c) n s) \<and>
   (\<not> isVal (ir s n) \<and> \<not> isExpr (ir s n) \<longrightarrow>
      Statement_const_dispatch handler c n s = (Inl (InternalAssert ''Unknown stmttype in dispatch!''), s)) \<and>
   Statement_const_dispatch handler (c\<lparr>const_handle_Statement := x2\<rparr>) n s = Statement_const_dispatch handler c n s \<and>
   (Val_switch_has_case (ir s n) \<longrightarrow>
      (\<exists>h\<in>set [const_handle_IterDomain c, const_handle_TensorDomain c, const_handle_Tensor c,
            const_handle_TensorView c, const_handle_Float c, const_handle_Int c].
          Val_const_dispatch handler c n s = const_call handler h n s)) \<and>
   (\<not> Val_switch_has_case (ir s n) \<longrightarrow>
      Val_const_dispatch handler c n s = (Inl (InternalAssert ''Unknown valtype in dispatch!''), s)) \<and>
   Val_const_dispatch handler (c\<lparr>const_handle_Statement := x2, const_handle_Expr := y2, const_handle_Val := z2\<rparr>) n s =
      Val_const_dispatch handler c n s \<and>
   (Expr_switch_has_case (ir s n) \<longrightarrow>
      (\<exists>h\<in>set [const_handle_Split c, const_handle_Merge c, const_handle_Reorder c,
            const_handle_UnaryOp c, const_handle_BinaryOp c, const_handle_ForLoop c,
            const_handle_IfThenElse c].
          Expr_const_dispatch handler c n s = const_call handler h n s)) \<and>
   (\<not> Expr_switch_has_case (ir s n) \<longrightarrow>
      Expr_const_dispatch handler c n s = (Inl (InternalAssert ''Unknown exprtype in dispatch!''), s)) \<and>
   Expr_const_dispatch handler (c\<lparr>const_handle_Statement := x2, const_handle_Expr := y2, const_handle_Val := z2\<rparr>) n s =
      Expr_const_dispatch handler c n s \<and>
   (isVal (ir s n) \<and> Val_switch_has_case (ir s n) \<longrightarrow>
      (\<exists>h\<in>set [const_handle_IterDomain c, const_handle_TensorDomain c, const_handle_Tensor c,
            const_handle_TensorView c, const_handle_Float c, const_handle_Int c].
          Statement_const_dispatch handler (OptInConstDispatch c) n s = const_call handler h n s)) \<and>
   (\<not> isVal (ir s n) \<and> isExpr (ir s n) \<and> Expr_switch_has_case (ir s n) \<longrightarrow>
      (\<exists>h\<in>set [const_handle_Split c, const_handle_Merge c, const_handle_Reorder c,
            const_handle_UnaryOp c, const_handle_BinaryOp c, const_handle_ForLoop c,
            const_handle_IfThenElse c].
          Statement_const_dispatch handler (OptInConstDispatch c) n s = const_call handler h n s)) \<and>
   (isVal (ir s n) \<and> \<not> Val_switch_has_case (ir s n) \<longrightarrow>
      Statement_const_dispatch handler (OptInConstDispatch c) n s = (Inl (InternalAssert ''Unknown valtype in dispatch!''), s)) \<and>
   (\<not> isVal (ir s n) \<and> isExpr (ir s n) \<and> \<not> Expr_switch_has_case (ir s n) \<longrightarrow>
      Statement_const_dispatch handler (OptInConstDispatch c) n s = (Inl (InternalAssert ''Unknown exprtype in dispatch!''), s)) \<and>
   (\<not> isVal (ir s n) \<and> \<not> isExpr (ir s n) \<longrightarrow>
      Statement_const_dispatch handler (OptInConstDispatch c) n s = (Inl (InternalAssert ''Unknown stmttype in dispatch!''), s)) \<and>
   (isVal (ir s n) \<longrightarrow>
      Statement_mutator_dispatch handler m n s = call handler (mutate_Val m) n s) \<and>
   (\<not> isVal (ir s n) \<and> isExpr (ir s n) \<longrightarrow>
      Statement_mutator_dispatch handler m n s = call handler (mutate_Expr m) n s) \<and>
   (\<not> isVal (ir s n) \<and> \<not> isExpr (ir s n) \<longrightarrow>
      Statement_mutator_dispatch handler m n s = (Inl (InternalAssert ''Unknown stmttype in dispatch!''), s)) \<and>
   Statement_mutator_dispatch handler (m\<lparr>mutate_Statement := x3\<rparr>) n s = Statement_mutator_dispatch handler m n s \<and>
   (Val_switch_has_case (ir s n) \<longrightarrow>
      (\<exists>h\<in>set [mutate_IterDomain m, mutate_TensorDomain m, mutate_Tensor m,
            mutate_TensorView m, mutate_Float m, mutate_Int m].
          Val_mutator_dispatch handler m n s = call handler h n s)) \<and>
   (\<not> Val_switch_has_case (ir s n) \<longrightarrow>
      Val_mutator_dispatch handler m n s = (Inl (InternalAssert ''Unknown valtype in dispatch!''), s)) \<and>
   Val_mutator_dispatch handler (m\<lparr>mutate_Statement := x3, mutate_Expr := y3, mutate_Val := z3\<rparr>) n s =
      Val_mutator_dispatch handler m n s \<and>
   (Expr_switch_has_case (ir s n) \<longrightarrow>
      (\<exists>h\<in>set [mutate_Split m, mutate_Merge m, mutate_Reorder m, mutate_UnaryOp m,
            mutate_BinaryOp m, mutate_ForLoop m, mutate_IfThenElse m].
          Expr_mutator_dispatch handler m n s = call handler h n s)) \<and>
   (\<not> Expr_switch_has_case (ir s n) \<longrightarrow>
      Expr_mutator_dispatch handler m n s = (Inl (InternalAssert ''Unknown exprtype in dispatch!''), s)) \<and>
   Expr_mutator_dispatch handler (m\<lparr>mutate_Statement := x3, mutate_Expr := y3, mutate_Val := z3\<rparr>) n s =
      Expr_mutator_dispatch handler m n s \<and>
   (isVal (ir s n) \<and> Val_switch_has_case (ir s n) \<longrightarrow>
      (\<exists>h\<in>set [mutate_IterDomain m, mutate_TensorDomain m, mutate_Tensor m,
            mutate_TensorView m, mutate_Float m, mutate_Int m].
          Statement_mutator_dispatch handler (OptOutMutator m) n s = call handler h n s)) \<and>
   (\<not> isVal (ir s n) \<and> isExpr (ir s n) \<and> Expr_switch_has_case (ir s n) \<longrightarrow>
      (\<exists>h\<in>set [mutate_Split m, mutate_Merge m, mutate_Reorder m, mutate_UnaryOp m,
            mutate_BinaryOp m, mutate_ForLoop m, mutate_IfThenElse m].
          Statement_mutator_dispatch handler (OptOutMutator m) n s = call handler h n s)) \<and>
   (isVal (ir s n) \<and> \<not> Val_switch_has_case (ir s n) \<longrightarrow>
      Statement_mutator_dispatch handler (OptOutMutator m) n s = (Inl (InternalAssert ''Unknown valtype in dispatch!''), s)) \<and>
   (\<not> isVal (ir s n) \<and> isExpr (ir s n) \<and> \<not> Expr_switch_has_case (ir s n) \<longrightarrow>
      Statement_mutator_dispatch handler (OptOutMutator m) n s = (Inl (InternalAssert ''Unknown exprtype in dispatch!''), s)) \<and>
   (\<not> isVal (ir s n) \<and> \<not> isExpr (ir s n) \<longrightarrow>
      Statement_mutator_dispatch handler (OptOutMutator m) n s = (Inl (InternalAssert ''Unknown stmttype in dispatch!''), s))"
  (is "?c0 \<and> ?c1 \<and> ?c2 \<and> ?c3 \<and> ?c4 \<and> ?c5 \<and> ?c6 \<and>
       ?c7 \<and> ?c8 \<and> ?c9 \<and> ?c10 \<and> ?c11 \<and> ?c12 \<and> ?c13 \<and>
       ?c14 \<and> ?c15 \<and> ?c16 \<and> ?c17 \<and> ?c18 \<and> ?c19 \<and> ?c20 \<and>
       ?c21 \<and> ?c22 \<and> ?c23 \<and> ?c24 \<and> ?c25 \<and> ?c26 \<and> ?c27 \<and>
       ?c28 \<and> ?c29 \<and> ?c30 \<and> ?c31 \<and> ?c32 \<and> ?c33 \<and> ?c34 \<and>
       ?c35 \<and> ?c36 \<and> ?c37 \<and> ?c38 \<and> ?c39 \<and> ?c40 \<and> ?c41 \<and>
       ?c42 \<and> ?c43 \<and> ?c44 \<and> ?c45 \<and> ?c46 \<and> ?c47 \<and> ?c48 \<and>
       ?c49")
proof -
  have c0: ?c0
    by (simp add: Statement_dispatch_def)
  have c1: ?c1
    by (simp add: Statement_dispatch_def)
  have c2: ?c2
    by (simp add: Statement_dispatch_def TORCH_INTERNAL_ASSERT_def)
  have c3: ?c3
    by (simp add: Statement_dispatch_def)
  have c4: ?c4
    by (cases "getValType (ir s n)"; cases "getDataType (ir s n)")
      (simp_all add: Val_dispatch_def Val_switch_has_case_def)
  have c5: ?c5
    by (cases "getValType (ir s n)"; cases "getDataType (ir s n)")
      (simp_all add: Val_dispatch_def Val_switch_has_case_def TORCH_INTERNAL_ASSERT_def)
  have c6: ?c6
    by (cases "getValType (ir s n)"; cases "getDataType (ir s n)")
      (simp_all add: Val_dispatch_def)
  have c7: ?c7
    by (cases "getExprType (ir s n)")
      (simp_all add: Expr_dispatch_def Expr_switch_has_case_def)
  have c8: ?c8
    by (cases "getExprType (ir s n)")
      (simp_all add: Expr_dispatch_def Expr_switch_has_case_def TORCH_INTERNAL_ASSERT_def)
  have c9: ?c9
    by (cases "getExprType (ir s n)")
      (simp_all add: Expr_dispatch_def)
  have c10: ?c10
    by (cases "getValType (ir s n)"; cases "getDataType (ir s n)")
      (simp_all add: Statement_dispatch_OptOutDispatch Val_dispatch_def Val_switch_has_case_def)
  have c11: ?c11
    by (cases "getExprType (ir s n)")
      (simp_all add: Statement_dispatch_OptOutDispatch Expr_dispatch_def Expr_switch_has_case_def)
  have c12: ?c12
    by (cases "getValType (ir s n)"; cases "getDataType (ir s n)")
      (simp_all add: Statement_dispatch_OptOutDispatch Val_dispatch_def Val_switch_has_case_def TORCH_INTERNAL_ASSERT_def)
  have c13: ?c13
    by (cases "getExprType (ir s n)")
      (simp_all add: Statement_dispatch_OptOutDispatch Expr_dispatch_def Expr_switch_has_case_def TORCH_INTERNAL_ASSERT_def)
  have c14: ?c14
    by (simp add: Statement_dispatch_OptOutDispatch TORCH_INTERNAL_ASSERT_def)
  have c15: ?c15
    by (cases "getValType (ir s n)"; cases "getDataType (ir s n)")
      (simp_all add: Statement_dispatch_OptInDispatch Val_dispatch_def Val_switch_has_case_def)
  have c16: ?c16
    by (cases "getExprType (ir s n)")
      (simp_all add: Statement_dispatch_OptInDispatch Expr_dispatch_def Expr_switch_has_case_def)
  have c17: ?c17
    by (cases "getValType (ir s n)"; cases "getDataType (ir s n)")
      (simp_all add: Statement_dispatch_OptInDispatch Val_dispatch_def Val_switch_has_case_def TORCH_INTERNAL_ASSERT_def)
  have c18: ?c18
    by (cases "getExprType (ir s n)")
      (simp_all add: Statement_dispatch_OptInDispatch Expr_dispatch_def Expr_switch_has_case_def TORCH_INTERNAL_ASSERT_def)
  have c19: ?c19
    by (simp add: Statement_dispatch_OptInDispatch TORCH_INTERNAL_ASSERT_def)
  have c20: ?c20
    by (simp add: Statement_const_dispatch_def)
  have c21: ?c21
    by (simp add: Statement_const_dispatch_def)
  have c22: ?c22
    by (simp add: Statement_const_dispatch_def TORCH_INTERNAL_ASSERT_def)
  have c23: ?c23
    by (simp add: Statement_const_dispatch_def)
  have c24: ?c24
    by (cases "getValType (ir s n)"; cases "getDataType (ir s n)")
      (simp_all add: Val_const_dispatch_def Val_switch_has_case_def)
  have c25: ?c25
    by (cases "getValType (ir s n)"; cases "getDataType (ir s n)")
      (simp_all add: Val_const_dispatch_def Val_switch_has_case_def TORCH_INTERNAL_ASSERT_def)
  have c26: ?c26
    by (cases "getValType (ir s n)"; cases "getDataType (ir s n)")
      (simp_all add: Val_const_dispatch_def)
  have c27: ?c27
    by (cases "getExprType (ir s n)")
      (simp_all add: Expr_const_dispatch_def Expr_switch_has_case_def)
  have c28: ?c28
    by (cases "getExprType (ir s n)")
      (simp_all add: Expr_const_dispatch_def Expr_switch_has_case_def TORCH_INTERNAL_ASSERT_def)
  have c29: ?c29
    by (cases "getExprType (ir s n)")
      (simp_all add: Expr_const_dispatch_def)
  have c30: ?c30
    by (cases "getValType (ir s n)"; cases "getDataType (ir s n)")
      (simp_all add: Statement_const_dispatch_OptInConstDispatch Val_const_dispatch_def Val_switch_has_case_def)
  have c31: ?c31
    by (cases "getExprType (ir s n)")
      (simp_all add: Statement_const_dispatch_OptInConstDispatch Expr_const_dispatch_def Expr_switch_has_case_def)
  have c32: ?c32
    by (cases "getValType (ir s n)"; cases "getDataType (ir s n)")
      (simp_all add: Statement_const_dispatch_OptInConstDispatch Val_const_dispatch_def Val_switch_has_case_def TORCH_INTERNAL_ASSERT_def)
  have c33: ?c33
    by (cases "getExprType (ir s n)")
      (simp_all add: Statement_const_dispatch_OptInConstDispatch Expr_const_dispatch_def Expr_switch_has_case_def TORCH_INTERNAL_ASSERT_def)
  have c34: ?c34
    by (simp add: Statement_const_dispatch_OptInConstDispatch TORCH_INTERNAL_ASSERT_def)
  have c35: ?c35
    by (simp add: Statement_mutator_dispatch_def)
  have c36: ?c36
    by (simp add: Statement_mutator_dispatch_def)
  have c37: ?c37
    by (simp add: Statement_mutator_dispatch_def TORCH_INTERNAL_ASSERT_def)
  have c38: ?c38
    by (simp add: Statement_mutator_dispatch_def)
  have c39: ?c39
    by (cases "getValType (ir s n)"; cases "getDataType (ir s n)")
      (simp_all add: Val_mutator_dispatch_def Val_switch_has_case_def)
  have c40: ?c40
    by (cases "getValType (ir s n)"; cases "getDataType (ir s n)")
      (simp_all add: Val_mutator_dispatch_def Val_switch_has_case_def TORCH_INTERNAL_ASSERT_def)
  have c41: ?c41
    by (cases "getValType (ir s n)"; cases "getDataType (ir s n)")
      (simp_all add: Val_mutator_dispatch_def)
  have c42: ?c42
    by (cases "getExprType (ir s n)")
      (simp_all add: Expr_mutator_dispatch_def Expr_switch_has_case_def)
  have c43: ?c43
    by (cases "getExprType (ir s n)")
      (simp_all add: Expr_mutator_dispatch_def Expr_switch_has_case_def TORCH_INTERNAL_ASSERT_def)
  have c44: ?c44
    by (cases "getExprType (ir s n)")
      (simp_all add: Expr_mutator_dispatch_def)
  have c45: ?c45
    by (cases "getValType (ir s n)"; cases "getDataType (ir s n)")
      (simp_all add: Statement_mutator_dispatch_OptOutMutator Val_mutator_dispatch_def Val_switch_has_case_def)
  have c46: ?c46
    by (cases "getExprType (ir s n)")
      (simp_all add: Statement_mutator_dispatch_OptOutMutator Expr_mutator_dispatch_def Expr_switch_has_case_def)
  have c47: ?c47
    by (cases "getValType (ir s n)"; cases "getDataType (ir s n)")
      (simp_all add: Statement_mutator_dispatch_OptOutMutator Val_mutator_dispatch_def Val_switch_has_case_def TORCH_INTERNAL_ASSERT_def)
  have c48: ?c48
    by (cases "getExprType (ir s n)")
      (simp_all add: Statement_mutator_dispatch_OptOutMutator Expr_mutator_dispatch_def Expr_switch_has_case_def TORCH_INTERNAL_ASSERT_def)
  have c49: ?c49
    by (simp add: Statement_mutator_dispatch_OptOutMutator TORCH_INTERNAL_ASSERT_def)
  show ?thesis
    by (intro conjI c0 c1 c2 c3 c4 c5 c6 c7 c8 c9 c10 c11 c12 c13 c14 c15 c16 c17 c18 c19 c20 c21 c22
        c23 c24 c25 c26 c27 c28 c29 c30 c31 c32 c33 c34 c35 c36 c37 c38 c39 c40 c41 c42 c43
        c44 c45 c46 c47 c48 c49)
qed

text \<open>
  The recording handler, through a pointer. A Float scalar entered at the Statement level
  of a class with its own category-level overloads reaches \<^verbatim>\<open>handle(Val*)\<close>; entered at the
  Val level it reaches one overload for a concrete kind. A ForLoop entered at the
  Statement level of the class derived from \<^verbatim>\<open>OptOutDispatch\<close> reaches one overload for a
  concrete kind, \<^verbatim>\<open>handle(ForLoop*)\<close>. A Val with a tag outside the enumeration ends in the
  assertion.
\<close>

theorem dispatch_is_one_step_then_one_overload_witness:
  "Val_switch_has_case (ir (start (\<lambda>a. Val_node Scalar Float)) 0) \<and>
   Expr_switch_has_case (ir (start (\<lambda>a. Expr_node ForLoop)) 0) \<and>
   \<not> Val_switch_has_case (ir (start (\<lambda>a. Val_node (OtherValType 5) Float)) 0) \<and>
   Statement_dispatch Pointer recorder 0 (start (\<lambda>a. Val_node Scalar Float)) =
     (Inr (), \<lparr>ir = \<lambda>a. Val_node Scalar Float, receiver = 1, world = [(on_Val, 0)]\<rparr>) \<and>
   (\<exists>h\<in>set [handle_IterDomain recorder, handle_TensorDomain recorder, handle_Tensor recorder,
         handle_TensorView recorder, handle_Float recorder, handle_Int recorder].
      Val_dispatch Pointer recorder 0 (start (\<lambda>a. Val_node Scalar Float)) =
        call Pointer h 0 (start (\<lambda>a. Val_node Scalar Float))) \<and>
   (\<exists>h\<in>set [handle_Split recorder, handle_Merge recorder, handle_Reorder recorder,
         handle_UnaryOp recorder, handle_BinaryOp recorder, handle_ForLoop recorder,
         handle_IfThenElse recorder].
      Statement_dispatch Pointer (OptOutDispatch recorder) 0 (start (\<lambda>a. Expr_node ForLoop)) =
        call Pointer h 0 (start (\<lambda>a. Expr_node ForLoop))) \<and>
   Statement_dispatch Pointer (OptOutDispatch recorder) 0 (start (\<lambda>a. Expr_node ForLoop)) =
     (Inr (), \<lparr>ir = \<lambda>a. Expr_node ForLoop, receiver = 1, world = [(on_ForLoop, 0)]\<rparr>) \<and>
   Statement_dispatch Pointer (OptOutDispatch recorder) 0 (start (\<lambda>a. Val_node (OtherValType 5) Float)) =
     (Inl (InternalAssert ''Unknown valtype in dispatch!''), start (\<lambda>a. Val_node (OtherValType 5) Float))"
  (is "?kf \<and> ?ke \<and> ?kb \<and> ?step \<and> ?val \<and> ?chain \<and> ?run \<and> ?bad")
proof -
  note on_float = dispatch_is_one_step_then_one_overload
    [where handler = Pointer and d = recorder and c = const_recorder
      and m = "mutate_recorder replacement" and n = 0
      and s = "start (\<lambda>a. Val_node Scalar Float)"]
  note on_loop = dispatch_is_one_step_then_one_overload
    [where handler = Pointer and d = recorder and c = const_recorder
      and m = "mutate_recorder replacement" and n = 0
      and s = "start (\<lambda>a. Expr_node ForLoop)"]
  note on_bad = dispatch_is_one_step_then_one_overload
    [where handler = Pointer and d = recorder and c = const_recorder
      and m = "mutate_recorder replacement" and n = 0
      and s = "start (\<lambda>a. Val_node (OtherValType 5) Float)"]
  have kf: ?kf and vf: "isVal (ir (start (\<lambda>a. Val_node Scalar Float)) 0)"
    by (simp_all add: Val_switch_has_case_def start_def Val_node_def)
  have ke: ?ke
    and el: "\<not> isVal (ir (start (\<lambda>a. Expr_node ForLoop)) 0) \<and> isExpr (ir (start (\<lambda>a. Expr_node ForLoop)) 0) \<and>
      Expr_switch_has_case (ir (start (\<lambda>a. Expr_node ForLoop)) 0)"
    by (simp_all add: Expr_switch_has_case_def start_def Expr_node_def)
  have kb: ?kb
    and vb: "isVal (ir (start (\<lambda>a. Val_node (OtherValType 5) Float)) 0) \<and>
      \<not> Val_switch_has_case (ir (start (\<lambda>a. Val_node (OtherValType 5) Float)) 0)"
    by (simp_all add: Val_switch_has_case_def start_def Val_node_def)
  have "Statement_dispatch Pointer recorder 0 (start (\<lambda>a. Val_node Scalar Float)) =
      call Pointer (handle_Val recorder) 0 (start (\<lambda>a. Val_node Scalar Float))"
    by (rule on_float [THEN conjunct1, THEN mp, OF vf])
  then have step: ?step
    by (simp add: call_Pointer recorder_def record_handle_def start_def)
  have val: ?val
    by (rule on_float [THEN conjunct2, THEN conjunct2, THEN conjunct2, THEN conjunct2, THEN conjunct1,
        THEN mp, OF kf])
  have chain: ?chain
    by (rule on_loop [THEN conjunct2, THEN conjunct2, THEN conjunct2, THEN conjunct2, THEN conjunct2,
        THEN conjunct2, THEN conjunct2, THEN conjunct2, THEN conjunct2, THEN conjunct2,
        THEN conjunct2, THEN conjunct1, THEN mp, OF el])
  have run: ?run
    by (simp add: Statement_dispatch_OptOutDispatch Expr_dispatch_def start_def Expr_node_def
        call_Pointer recorder_def record_handle_def)
  have bad: ?bad
    by (rule on_bad [THEN conjunct2, THEN conjunct2, THEN conjunct2, THEN conjunct2, THEN conjunct2,
        THEN conjunct2, THEN conjunct2, THEN conjunct2, THEN conjunct2, THEN conjunct2,
        THEN conjunct2, THEN conjunct2, THEN conjunct1, THEN mp, OF vb])
  show ?thesis
    by (intro conjI kf ke kb step val chain run bad)
qed

text \<open>
  Claim C8 says that, for any handler whose overloads for the concrete kinds do not
  re-enter the dispatcher, the chain is a category step followed by exactly one
  invocation of an overload for a concrete kind. The recording handler has its own
  \<^verbatim>\<open>handle(Expr*)\<close>, and its overloads for the concrete kinds only log. On a ForLoop
  entered at the Statement level the dispatch returns with \<^verbatim>\<open>handle(Expr*)\<close> alone in the
  log: it is not the assertion and not the call of any overload for a concrete kind.
\<close>

theorem own_category_overload_ends_the_chain:
  "Statement_dispatch Pointer recorder 0 (start (\<lambda>a. Expr_node ForLoop)) =
     (Inr (), \<lparr>ir = \<lambda>a. Expr_node ForLoop, receiver = 1, world = [(on_Expr, 0)]\<rparr>) \<and>
   \<not> (\<exists>h\<in>set [handle_IterDomain recorder, handle_TensorDomain recorder, handle_Tensor recorder,
          handle_TensorView recorder, handle_Float recorder, handle_Int recorder,
          handle_Split recorder, handle_Merge recorder, handle_Reorder recorder,
          handle_UnaryOp recorder, handle_BinaryOp recorder, handle_ForLoop recorder,
          handle_IfThenElse recorder].
      Statement_dispatch Pointer recorder 0 (start (\<lambda>a. Expr_node ForLoop)) =
        call Pointer h 0 (start (\<lambda>a. Expr_node ForLoop)))"
  by (simp add: Statement_dispatch_def start_def Expr_node_def call_Pointer recorder_def
      record_handle_def)

section \<open>A Statement of both categories is dispatched as a Val\<close>

text \<open>
  Claim C9. When both category tests answer true, the three Statement-level dispatch
  functions call the Val-level overload on the node, and the outcome does not depend on
  what the Expr-level overload of the handler is: it is not invoked.
\<close>

theorem both_categories_take_the_Val_path:
  "isVal (ir s n) \<and> isExpr (ir s n) \<longrightarrow>
     Statement_dispatch handler d n s = call handler (handle_Val d) n s \<and>
     Statement_const_dispatch handler c n s = const_call handler (const_handle_Val c) n s \<and>
     Statement_mutator_dispatch handler m n s = call handler (mutate_Val m) n s \<and>
     Statement_dispatch handler (d\<lparr>handle_Expr := e1\<rparr>) n s = Statement_dispatch handler d n s \<and>
     Statement_const_dispatch handler (c\<lparr>const_handle_Expr := e2\<rparr>) n s =
       Statement_const_dispatch handler c n s \<and>
     Statement_mutator_dispatch handler (m\<lparr>mutate_Expr := e3\<rparr>) n s =
       Statement_mutator_dispatch handler m n s"
  by (simp add: Statement_dispatch_def Statement_const_dispatch_def Statement_mutator_dispatch_def)

text \<open>
  The recording handlers on a node that answers true to both tests: the Val-level
  overload is the only one in the log.
\<close>

theorem both_categories_take_the_Val_path_witness:
  "Statement_dispatch Pointer recorder 0 (start (\<lambda>a. (Expr_node Split)\<lparr>isVal := True\<rparr>)) =
     (Inr (), \<lparr>ir = \<lambda>a. (Expr_node Split)\<lparr>isVal := True\<rparr>, receiver = 1,
        world = [(on_Val, 0)]\<rparr>) \<and>
   Statement_const_dispatch Pointer const_recorder 0
       (start (\<lambda>a. (Expr_node Split)\<lparr>isVal := True\<rparr>)) =
     (Inr (), \<lparr>ir = \<lambda>a. (Expr_node Split)\<lparr>isVal := True\<rparr>, receiver = 1,
        world = [(on_Val, 0)]\<rparr>) \<and>
   Statement_mutator_dispatch Pointer (mutate_recorder replacement) 0
       (start (\<lambda>a. (Expr_node Split)\<lparr>isVal := True\<rparr>)) =
     (Inr 0, \<lparr>ir = \<lambda>a. (Expr_node Split)\<lparr>isVal := True\<rparr>, receiver = 1,
        world = [(on_Val, 0)]\<rparr>)"
  using both_categories_take_the_Val_path
    [where s = "start (\<lambda>a. (Expr_node Split)\<lparr>isVal := True\<rparr>)" and n = 0
      and handler = Pointer and d = recorder and c = const_recorder
      and m = "mutate_recorder replacement"]
  by (simp add: start_def Expr_node_def call_Pointer const_call_Pointer recorder_def
      const_recorder_def mutate_recorder_def record_handle_def record_const_handle_def
      record_mutate_def replacement_def)

section \<open>The overload is chosen by the tags alone\<close>

text \<open>
  Claim C10. Take two nodes, in any two states, that carry equal tags: equal ValType and,
  when it is Scalar, equal DataType at the Val level; equal ExprType at the Expr level;
  equal answers to the category tests at the Statement level. Then, for any handler,
  the two dispatches either both throw the assertion or both call the overload found
  under the same field of the handler class, each on its own node. Nothing else of the
  node or of the state enters the choice. This holds for Visit, Const-Visit and Mutate.
\<close>

theorem overload_is_chosen_by_tags_alone:
  "(getValType (ir s1 n1) = getValType (ir s2 n2) \<and>
    (getValType (ir s1 n1) = Scalar \<longrightarrow> getDataType (ir s1 n1) = getDataType (ir s2 n2)) \<longrightarrow>
      (Val_dispatch handler d n1 s1 = TORCH_INTERNAL_ASSERT ''Unknown valtype in dispatch!'' s1 \<and>
       Val_dispatch handler d n2 s2 = TORCH_INTERNAL_ASSERT ''Unknown valtype in dispatch!'' s2 \<or>
       (\<exists>sel\<in>set [handle_IterDomain, handle_TensorDomain, handle_Tensor, handle_TensorView,
               handle_Float, handle_Int].
          Val_dispatch handler d n1 s1 = call handler (sel d) n1 s1 \<and>
          Val_dispatch handler d n2 s2 = call handler (sel d) n2 s2)) \<and>
      (Val_const_dispatch handler c n1 s1 = TORCH_INTERNAL_ASSERT ''Unknown valtype in dispatch!'' s1 \<and>
       Val_const_dispatch handler c n2 s2 = TORCH_INTERNAL_ASSERT ''Unknown valtype in dispatch!'' s2 \<or>
       (\<exists>sel\<in>set [const_handle_IterDomain, const_handle_TensorDomain, const_handle_Tensor,
               const_handle_TensorView, const_handle_Float, const_handle_Int].
          Val_const_dispatch handler c n1 s1 = const_call handler (sel c) n1 s1 \<and>
          Val_const_dispatch handler c n2 s2 = const_call handler (sel c) n2 s2)) \<and>
      (Val_mutator_dispatch handler m n1 s1 = TORCH_INTERNAL_ASSERT ''Unknown valtype in dispatch!'' s1 \<and>
       Val_mutator_dispatch handler m n2 s2 = TORCH_INTERNAL_ASSERT ''Unknown valtype in dispatch!'' s2 \<or>
       (\<exists>sel\<in>set [mutate_IterDomain, mutate_TensorDomain, mutate_Tensor, mutate_TensorView,
               mutate_Float, mutate_Int].
          Val_mutator_dispatch handler m n1 s1 = call handler (sel m) n1 s1 \<and>
          Val_mutator_dispatch handler m n2 s2 = call handler (sel m) n2 s2))) \<and>
   (getExprType (ir s1 n1) = getExprType (ir s2 n2) \<longrightarrow>
      (Expr_dispatch handler d n1 s1 = TORCH_INTERNAL_ASSERT ''Unknown exprtype in dispatch!'' s1 \<and>
       Expr_dispatch handler d n2 s2 = TORCH_INTERNAL_ASSERT ''Unknown exprtype in dispatch!'' s2 \<or>
       (\<exists>sel\<in>set [handle_Split, handle_Merge, handle_Reorder, handle_UnaryOp, handle_BinaryOp,
               handle_ForLoop, handle_IfThenElse].
          Expr_dispatch handler d n1 s1 = call handler (sel d) n1 s1 \<and>
          Expr_dispatch handler d n2 s2 = call handler (sel d) n2 s2)) \<and>
      (Expr_const_dispatch handler c n1 s1 = TORCH_INTERNAL_ASSERT ''Unknown exprtype in dispatch!'' s1 \<and>
       Expr_const_dispatch handler c n2 s2 = TORCH_INTERNAL_ASSERT ''Unknown exprtype in dispatch!'' s2 \<or>
       (\<exists>sel\<in>set [const_handle_Split, const_handle_Merge, const_handle_Reorder,
               const_handle_UnaryOp, const_handle_BinaryOp, const_handle_ForLoop,
               const_handle_IfThenElse].
          Expr_const_dispatch handler c n1 s1 = const_call handler (sel c) n1 s1 \<and>
          Expr_const_dispatch handler c n2 s2 = const_call handler (sel c) n2 s2)) \<and>
      (Expr_mutator_dispatch handler m n1 s1 = TORCH_INTERNAL_ASSERT ''Unknown exprtype in dispatch!'' s1 \<and>
       Expr_mutator_dispatch handler m n2 s2 = TORCH_INTERNAL_ASSERT ''Unknown exprtype in dispatch!'' s2 \<or>
       (\<exists>sel\<in>set [mutate_Split, mutate_Merge, mutate_Reorder, mutate_UnaryOp, mutate_BinaryOp,
               mutate_ForLoop, mutate_IfThenElse].
          Expr_mutator_dispatch handler m n1 s1 = call handler (sel m) n1 s1 \<and>
          Expr_mutator_dispatch handler m n2 s2 = call handler (sel m) n2 s2))) \<and>
   (isVal (ir s1 n1) = isVal (ir s2 n2) \<and> isExpr (ir s1 n1) = isExpr (ir s2 n2) \<longrightarrow>
      (Statement_dispatch handler d n1 s1 = TORCH_INTERNAL_ASSERT ''Unknown stmttype in dispatch!'' s1 \<and>
       Statement_dispatch handler d n2 s2 = TORCH_INTERNAL_ASSERT ''Unknown stmttype in dispatch!'' s2 \<or>
       (\<exists>sel\<in>set [handle_Val, handle_Expr].
          Statement_dispatch handler d n1 s1 = call handler (sel d) n1 s1 \<and>
          Statement_dispatch handler d n2 s2 = call handler (sel d) n2 s2)) \<and>
      (Statement_const_dispatch handler c n1 s1 = TORCH_INTERNAL_ASSERT ''Unknown stmttype in dispatch!'' s1 \<and>
       Statement_const_dispatch handler c n2 s2 = TORCH_INTERNAL_ASSERT ''Unknown stmttype in dispatch!'' s2 \<or>
       (\<exists>sel\<in>set [const_handle_Val, const_handle_Expr].
          Statement_const_dispatch handler c n1 s1 = const_call handler (sel c) n1 s1 \<and>
          Statement_const_dispatch handler c n2 s2 = const_call handler (sel c) n2 s2)) \<and>
      (Statement_mutator_dispatch handler m n1 s1 = TORCH_INTERNAL_ASSERT ''Unknown stmttype in dispatch!'' s1 \<and>
       Statement_mutator_dispatch handler m n2 s2 = TORCH_INTERNAL_ASSERT ''Unknown stmttype in dispatch!'' s2 \<or>
       (\<exists>sel\<in>set [mutate_Val, mutate_Expr].
          Statement_mutator_dispatch handler m n1 s1 = call handler (sel m) n1 s1 \<and>
          Statement_mutator_dispatch handler m n2 s2 = call handler (sel m) n2 s2)))"
  (is "(?hv \<longrightarrow> ?cv) \<and> (?he \<longrightarrow> ?ce) \<and> (?hs \<longrightarrow> ?cs)")
proof -
  have val: ?cv if ?hv
    using that
    by (cases "getValType (ir s2 n2)"; cases "getDataType (ir s2 n2)")
      (simp_all add: Val_dispatch_def Val_const_dispatch_def Val_mutator_dispatch_def)
  have expr: ?ce if ?he
    using that
    by (cases "getExprType (ir s2 n2)")
      (simp_all add: Expr_dispatch_def Expr_const_dispatch_def Expr_mutator_dispatch_def)
  have statement: ?cs if ?hs
    using that
    by (simp add: Statement_dispatch_def Statement_const_dispatch_def
        Statement_mutator_dispatch_def)
  show ?thesis
    using val expr statement by blast
qed

text \<open>
  Two Float scalars that differ in their contents, at addresses 0 and 1, visited by the
  recording handler: the tags agree, the two dispatches share the field of the
  overload, and each node gets its own call of \<open>handle_Float\<close>.
\<close>

theorem overload_is_chosen_by_tags_alone_witness:
  "getValType (two_nodes (Val_node Scalar Float) 0) = getValType (two_nodes (Val_node Scalar Float) 1) \<and>
   getDataType (two_nodes (Val_node Scalar Float) 0) = getDataType (two_nodes (Val_node Scalar Float) 1) \<and>
   contents (two_nodes (Val_node Scalar Float) 0) \<noteq> contents (two_nodes (Val_node Scalar Float) 1) \<and>
   (Val_dispatch Pointer recorder 0 (start (two_nodes (Val_node Scalar Float))) =
      TORCH_INTERNAL_ASSERT ''Unknown valtype in dispatch!'' (start (two_nodes (Val_node Scalar Float))) \<and>
    Val_dispatch Pointer recorder 1 (start (two_nodes (Val_node Scalar Float))) =
      TORCH_INTERNAL_ASSERT ''Unknown valtype in dispatch!'' (start (two_nodes (Val_node Scalar Float))) \<or>
    (\<exists>sel\<in>set [handle_IterDomain, handle_TensorDomain, handle_Tensor, handle_TensorView,
         handle_Float, handle_Int].
       Val_dispatch Pointer recorder 0 (start (two_nodes (Val_node Scalar Float))) =
         call Pointer (sel recorder) 0 (start (two_nodes (Val_node Scalar Float))) \<and>
       Val_dispatch Pointer recorder 1 (start (two_nodes (Val_node Scalar Float))) =
         call Pointer (sel recorder) 1 (start (two_nodes (Val_node Scalar Float))))) \<and>
   Val_dispatch Pointer recorder 0 (start (two_nodes (Val_node Scalar Float))) =
     (Inr (), \<lparr>ir = two_nodes (Val_node Scalar Float), receiver = 1, world = [(on_Float, 0)]\<rparr>) \<and>
   Val_dispatch Pointer recorder 1 (start (two_nodes (Val_node Scalar Float))) =
     (Inr (), \<lparr>ir = two_nodes (Val_node Scalar Float), receiver = 1, world = [(on_Float, 1)]\<rparr>)"
proof -
  let ?S = "start (two_nodes (Val_node Scalar Float))"
  have tags: "getValType (ir ?S 0) = getValType (ir ?S 1) \<and>
      (getValType (ir ?S 0) = Scalar \<longrightarrow> getDataType (ir ?S 0) = getDataType (ir ?S 1))"
    by (simp add: start_def two_nodes_def Val_node_def)
  note chosen = overload_is_chosen_by_tags_alone
    [where ?s1.0 = ?S and ?n1.0 = 0 and ?s2.0 = ?S and ?n2.0 = 1 and handler = Pointer
      and d = recorder and c = const_recorder and m = "mutate_recorder replacement",
      THEN conjunct1, THEN mp, OF tags, THEN conjunct1]
  have nodes: "getValType (two_nodes (Val_node Scalar Float) 0) =
        getValType (two_nodes (Val_node Scalar Float) 1) \<and>
      getDataType (two_nodes (Val_node Scalar Float) 0) =
        getDataType (two_nodes (Val_node Scalar Float) 1) \<and>
      contents (two_nodes (Val_node Scalar Float) 0) \<noteq> contents (two_nodes (Val_node Scalar Float) 1)"
    by (simp add: two_nodes_def Val_node_def)
  have v0: "Val_dispatch Pointer recorder 0 ?S =
     (Inr (), \<lparr>ir = two_nodes (Val_node Scalar Float), receiver = 1, world = [(on_Float, 0)]\<rparr>)"
    and v1: "Val_dispatch Pointer recorder 1 ?S =
     (Inr (), \<lparr>ir = two_nodes (Val_node Scalar Float), receiver = 1, world = [(on_Float, 1)]\<rparr>)"
    by (simp_all add: Val_dispatch_def start_def two_nodes_def Val_node_def call_Pointer
        recorder_def record_handle_def)
  show ?thesis
    using nodes chosen v0 v1 by (intro conjI) blast+
qed

end
